theory Spec2Isabelle
  imports Complex_Main
begin

section \<open>JavaScript numbers\<close>

text \<open>
  A JavaScript number is a finite value, one of the two infinities, or NaN. The special
  values and the rules by which they arise and propagate (\<open>Infinity - Infinity\<close>,
  \<open>Infinity / Infinity\<close>, \<open>0 * Infinity\<close>, comparisons with NaN) are modelled as ECMAScript
  defines them, and so are the overflow of a finite sum, product or quotient to an
  infinity and its underflow to zero. Within the finite range the result of an
  arithmetic operation is its exact real value: the rounding of binary64 arithmetic to
  53 bits is not modelled there (the conversion of a string to a number does round, see
  below). The two zeros are identified, and a zero divisor counts as \<open>+0\<close>.
\<close>

datatype jsnum = Fin real | PInf | NInf | NaN

text \<open>The infinity of the given sign.\<close>

definition signedInf :: "bool \<Rightarrow> jsnum" where
  "signedInf positive = (if positive then PInf else NInf)"

text \<open>
  The number for an exact finite result \<open>r\<close> of an operation. Rounding to nearest gives an
  infinity from the midpoint \<open>2^1024 - 2^970\<close> between the largest finite number and
  \<open>2^1024\<close> on, and zero up to the midpoint \<open>2^-1075\<close> between zero and the smallest
  positive number.
\<close>

definition numberOf :: "real \<Rightarrow> jsnum" where
  "numberOf r =
     (if 2 ^ 1024 - 2 ^ 970 \<le> r then PInf
      else if r \<le> - (2 ^ 1024 - 2 ^ 970) then NInf
      else if \<bar>r\<bar> \<le> 1 / 2 ^ 1075 then Fin 0
      else Fin r)"

fun jneg :: "jsnum \<Rightarrow> jsnum" where
  "jneg (Fin a) = Fin (- a)"
| "jneg PInf = NInf"
| "jneg NInf = PInf"
| "jneg NaN = NaN"

text \<open>\<open>a + b\<close> on numbers.\<close>

fun jadd :: "jsnum \<Rightarrow> jsnum \<Rightarrow> jsnum" where
  "jadd (Fin a) (Fin b) = numberOf (a + b)"
| "jadd (Fin a) PInf = PInf"
| "jadd (Fin a) NInf = NInf"
| "jadd PInf (Fin b) = PInf"
| "jadd PInf PInf = PInf"
| "jadd PInf NInf = NaN"
| "jadd NInf (Fin b) = NInf"
| "jadd NInf PInf = NaN"
| "jadd NInf NInf = NInf"
| "jadd NaN b = NaN"
| "jadd a NaN = NaN"

text \<open>\<open>a - b\<close> on numbers.\<close>

definition jsub :: "jsnum \<Rightarrow> jsnum \<Rightarrow> jsnum" where
  "jsub a b = jadd a (jneg b)"

text \<open>\<open>a * b\<close> on numbers.\<close>

fun jmul :: "jsnum \<Rightarrow> jsnum \<Rightarrow> jsnum" where
  "jmul (Fin a) (Fin b) = numberOf (a * b)"
| "jmul (Fin a) PInf = (if a = 0 then NaN else signedInf (0 < a))"
| "jmul (Fin a) NInf = (if a = 0 then NaN else signedInf (a < 0))"
| "jmul PInf (Fin b) = (if b = 0 then NaN else signedInf (0 < b))"
| "jmul NInf (Fin b) = (if b = 0 then NaN else signedInf (b < 0))"
| "jmul PInf PInf = PInf"
| "jmul PInf NInf = NInf"
| "jmul NInf PInf = NInf"
| "jmul NInf NInf = PInf"
| "jmul NaN b = NaN"
| "jmul a NaN = NaN"

text \<open>\<open>a / b\<close> on numbers. Division never raises in JavaScript.\<close>

fun jdiv :: "jsnum \<Rightarrow> jsnum \<Rightarrow> jsnum" where
  "jdiv (Fin a) (Fin b) =
     (if b = 0 then (if a = 0 then NaN else signedInf (0 < a)) else numberOf (a / b))"
| "jdiv (Fin a) PInf = Fin 0"
| "jdiv (Fin a) NInf = Fin 0"
| "jdiv PInf (Fin b) = signedInf (0 \<le> b)"
| "jdiv NInf (Fin b) = signedInf (b < 0)"
| "jdiv PInf PInf = NaN"
| "jdiv PInf NInf = NaN"
| "jdiv NInf PInf = NaN"
| "jdiv NInf NInf = NaN"
| "jdiv NaN b = NaN"
| "jdiv a NaN = NaN"

text \<open>\<open>a < b\<close> on numbers: false as soon as one side is NaN.\<close>

fun jlt :: "jsnum \<Rightarrow> jsnum \<Rightarrow> bool" where
  "jlt (Fin a) (Fin b) = (a < b)"
| "jlt (Fin a) PInf = True"
| "jlt NInf (Fin b) = True"
| "jlt NInf PInf = True"
| "jlt a b = False"

text \<open>\<open>a === b\<close> on numbers: NaN is not equal to itself.\<close>

definition jeq :: "jsnum \<Rightarrow> jsnum \<Rightarrow> bool" where
  "jeq a b = (a \<noteq> NaN \<and> a = b)"

text \<open>\<open>a <= b\<close> on numbers.\<close>

definition jle :: "jsnum \<Rightarrow> jsnum \<Rightarrow> bool" where
  "jle a b = (jlt a b \<or> jeq a b)"

text \<open>
  \<open>Math.min(...)\<close> and \<open>Math.max(...)\<close> are variadic: with no argument they return
  \<open>Infinity\<close> and \<open>-Infinity\<close>, and any NaN argument makes the result NaN.
\<close>

definition min2 :: "jsnum \<Rightarrow> jsnum \<Rightarrow> jsnum" where
  "min2 a b = (if a = NaN \<or> b = NaN then NaN else if jlt a b then a else b)"

definition max2 :: "jsnum \<Rightarrow> jsnum \<Rightarrow> jsnum" where
  "max2 a b = (if a = NaN \<or> b = NaN then NaN else if jlt b a then a else b)"

fun Math_min :: "jsnum list \<Rightarrow> jsnum" where
  "Math_min [] = PInf"
| "Math_min (x # xs) = min2 x (Math_min xs)"

fun Math_max :: "jsnum list \<Rightarrow> jsnum" where
  "Math_max [] = NInf"
| "Math_max (x # xs) = max2 x (Math_max xs)"

text \<open>\<open>Math.cos\<close> is NaN at NaN and at the infinities; \<open>Math.PI\<close>.\<close>

fun Math_cos :: "jsnum \<Rightarrow> jsnum" where
  "Math_cos (Fin a) = Fin (cos a)"
| "Math_cos a = NaN"

definition Math_PI :: jsnum where
  "Math_PI = Fin pi"

section \<open>JavaScript values and conversions\<close>

text \<open>
  The values a field of an input record may hold: \<open>undefined\<close>, \<open>null\<close>, a boolean, a
  number or a string. Strings are lists of 8-bit characters: the code units below 256.
\<close>

datatype jsval = Undefined | Null | JBool bool | Num jsnum | Str string

text \<open>An object is its list of properties; reading an absent property gives \<open>undefined\<close>.\<close>

type_synonym obj = "(string \<times> jsval) list"

definition getProp :: "obj \<Rightarrow> string \<Rightarrow> jsval" where
  "getProp d k = (case map_of d k of None \<Rightarrow> Undefined | Some v \<Rightarrow> v)"

subsection \<open>\<open>Number(string)\<close>\<close>

text \<open>
  ECMAScript's StringToNumber: white space is trimmed; the empty string is \<open>0\<close>; the rest
  is a decimal literal (optional sign, \<open>Infinity\<close>, or digits with an optional fraction and
  exponent) or an unsigned \<open>0x\<close>, \<open>0o\<close> or \<open>0b\<close> integer literal; anything else is NaN.
  The result is the mathematical value of the literal rounded to binary64: to the nearest
  number with a 53-bit significand, to the even one at a tie, to an infinity from
  \<open>2^1024\<close> on.
\<close>

text \<open>The nearest integer, the even one at a tie.\<close>

definition roundHalfEven :: "real \<Rightarrow> int" where
  "roundHalfEven x =
     (let f = \<lfloor>x\<rfloor>
      in if x - of_int f < 1 / 2 then f
         else if 1 / 2 < x - of_int f then f + 1
         else if even f then f else f + 1)"

text \<open>
  The binary64 number for the real \<open>r\<close>: with \<open>e\<close> the binary exponent of \<open>r\<close>, at least
  that of the subnormal numbers, the multiples of \<open>2^(e - 52)\<close> are the numbers near \<open>r\<close>.
\<close>

definition roundToDouble :: "real \<Rightarrow> jsnum" where
  "roundToDouble r =
     (if r = 0 then Fin 0
      else
        let a = \<bar>r\<bar>;
            e = max \<lfloor>log 2 a\<rfloor> (- 1022);
            u = 2 powr of_int (e - 52);
            v = of_int (roundHalfEven (a / u)) * u
        in if 2 ^ 1024 \<le> v then signedInf (0 < r)
           else Fin (if 0 < r then v else - v))"

text \<open>The white space among the code units below 256.\<close>

definition isStrWhiteSpaceChar :: "char \<Rightarrow> bool" where
  "isStrWhiteSpaceChar c =
     (c \<in> set [CHR 0x09, CHR 0x0A, CHR 0x0B, CHR 0x0C, CHR 0x0D, CHR 0x20, CHR 0xA0])"

definition trimString :: "string \<Rightarrow> string" where
  "trimString s =
     rev (dropWhile isStrWhiteSpaceChar (rev (dropWhile isStrWhiteSpaceChar s)))"

definition digitValue :: "char \<Rightarrow> nat option" where
  "digitValue c = map_of
     [(CHR ''0'', 0), (CHR ''1'', 1), (CHR ''2'', 2), (CHR ''3'', 3), (CHR ''4'', 4),
      (CHR ''5'', 5), (CHR ''6'', 6), (CHR ''7'', 7), (CHR ''8'', 8), (CHR ''9'', 9),
      (CHR ''a'', 10), (CHR ''b'', 11), (CHR ''c'', 12), (CHR ''d'', 13), (CHR ''e'', 14),
      (CHR ''f'', 15), (CHR ''A'', 10), (CHR ''B'', 11), (CHR ''C'', 12), (CHR ''D'', 13),
      (CHR ''E'', 14), (CHR ''F'', 15)] c"

definition digitIn :: "nat \<Rightarrow> char \<Rightarrow> nat option" where
  "digitIn radix c =
     (case digitValue c of None \<Rightarrow> None
      | Some d \<Rightarrow> if d < radix then Some d else None)"

fun digitsValue :: "nat \<Rightarrow> nat \<Rightarrow> string \<Rightarrow> nat option" where
  "digitsValue radix acc [] = Some acc"
| "digitsValue radix acc (c # cs) =
     (case digitIn radix c of None \<Rightarrow> None
      | Some d \<Rightarrow> digitsValue radix (acc * radix + d) cs)"

text \<open>A non-empty run of digits in the given radix.\<close>

definition parseDigits :: "nat \<Rightarrow> string \<Rightarrow> nat option" where
  "parseDigits radix s = (if s = [] then None else digitsValue radix 0 s)"

text \<open>The exponent after \<open>e\<close> or \<open>E\<close>: digits with an optional sign.\<close>

definition parseExponent :: "string \<Rightarrow> int option" where
  "parseExponent s =
     (if s \<noteq> [] \<and> hd s = CHR ''+'' then map_option int (parseDigits 10 (tl s))
      else if s \<noteq> [] \<and> hd s = CHR ''-'' then map_option (\<lambda>n. - int n) (parseDigits 10 (tl s))
      else map_option int (parseDigits 10 s))"

text \<open>Digits with an optional fraction: \<open>12\<close>, \<open>12.\<close>, \<open>12.5\<close>, \<open>.5\<close>.\<close>

definition parseMantissa :: "string \<Rightarrow> real option" where
  "parseMantissa s =
     (let ip = takeWhile (\<lambda>c. c \<noteq> CHR ''.'') s;
          dotfp = dropWhile (\<lambda>c. c \<noteq> CHR ''.'') s
      in if dotfp = [] then map_option real (parseDigits 10 ip)
         else let fp = tl dotfp
              in if ip = [] \<and> fp = [] then None
                 else case (if ip = [] then Some 0 else parseDigits 10 ip,
                            if fp = [] then Some 0 else parseDigits 10 fp) of
                        (Some i, Some f) \<Rightarrow> Some (real i + real f / 10 ^ length fp)
                      | _ \<Rightarrow> None)"

definition parseUnsignedDecimal :: "string \<Rightarrow> jsnum" where
  "parseUnsignedDecimal s =
     (if s = ''Infinity'' then PInf
      else let mant = takeWhile (\<lambda>c. c \<noteq> CHR ''e'' \<and> c \<noteq> CHR ''E'') s;
               rest = dropWhile (\<lambda>c. c \<noteq> CHR ''e'' \<and> c \<noteq> CHR ''E'') s
           in case (parseMantissa mant,
                    if rest = [] then Some 0 else parseExponent (tl rest)) of
                (Some m, Some e) \<Rightarrow>
                   roundToDouble (if 0 \<le> e then m * 10 ^ nat e else m / 10 ^ nat (- e))
              | _ \<Rightarrow> NaN)"

definition parseDecimal :: "string \<Rightarrow> jsnum" where
  "parseDecimal s =
     (if s \<noteq> [] \<and> hd s = CHR ''+'' then parseUnsignedDecimal (tl s)
      else if s \<noteq> [] \<and> hd s = CHR ''-'' then jneg (parseUnsignedDecimal (tl s))
      else parseUnsignedDecimal s)"

definition radixOfPrefix :: "string \<Rightarrow> nat option" where
  "radixOfPrefix p =
     (if p = ''0x'' \<or> p = ''0X'' then Some 16
      else if p = ''0o'' \<or> p = ''0O'' then Some 8
      else if p = ''0b'' \<or> p = ''0B'' then Some 2
      else None)"

definition StringToNumber :: "string \<Rightarrow> jsnum" where
  "StringToNumber s =
     (let t = trimString s
      in if t = [] then Fin 0
         else case radixOfPrefix (take 2 t) of
                Some r \<Rightarrow> (case parseDigits r (drop 2 t) of
                             None \<Rightarrow> NaN | Some n \<Rightarrow> roundToDouble (real n))
              | None \<Rightarrow> parseDecimal t)"

text \<open>\<open>Number(v)\<close>, which is also the conversion the operator \<open>-\<close> and \<open>Math.min\<close> apply.\<close>

fun ToNumber :: "jsval \<Rightarrow> jsnum" where
  "ToNumber Undefined = NaN"
| "ToNumber Null = Fin 0"
| "ToNumber (JBool b) = Fin (if b then 1 else 0)"
| "ToNumber (Num n) = n"
| "ToNumber (Str s) = StringToNumber s"

text \<open>\<open>n || 0\<close> for a number \<open>n\<close>: the falsy numbers are zero and NaN.\<close>

definition orZero :: "jsnum \<Rightarrow> jsnum" where
  "orZero n = (if n = NaN \<or> n = Fin 0 then Fin 0 else n)"

text \<open>\<open>s || dflt\<close> for a string \<open>s\<close>: the only falsy string is the empty one.\<close>

definition orString :: "string \<Rightarrow> string \<Rightarrow> string" where
  "orString s dflt = (if s = [] then dflt else s)"

text \<open>\<open>v ?? dflt\<close>.\<close>

definition nullish :: "jsval \<Rightarrow> jsval \<Rightarrow> jsval" where
  "nullish v dflt = (if v = Undefined \<or> v = Null then dflt else v)"

subsection \<open>\<open>Number.prototype.toFixed\<close>\<close>

text \<open>The decimal digits of a natural number, as the template literal prints \<open>87\<close>.\<close>

fun showNat :: "nat \<Rightarrow> string" where
  "showNat n =
     (if n < 10 then [''0123456789'' ! n]
      else showNat (n div 10) @ [''0123456789'' ! (n mod 10)])"

declare showNat.simps [simp del]

text \<open>
  \<open>x.toFixed(f)\<close>: a non-finite \<open>x\<close> prints as \<open>NaN\<close>, \<open>Infinity\<close> or \<open>-Infinity\<close>; a finite
  one as the integer \<open>n\<close> nearest to \<open>x * 10^f\<close> (the larger one at a tie), padded with
  zeros to at least \<open>f + 1\<close> digits, with a point before the last \<open>f\<close> digits. (For
  \<open>|x| \<ge> 10^21\<close> JavaScript switches to exponent notation; alphas never get there.)
\<close>

definition toFixed :: "jsnum \<Rightarrow> nat \<Rightarrow> string" where
  "toFixed x f =
     (case x of
        NaN \<Rightarrow> ''NaN''
      | PInf \<Rightarrow> ''Infinity''
      | NInf \<Rightarrow> ''-Infinity''
      | Fin r \<Rightarrow>
          let s = (if r < 0 then ''-'' else '''');
              n = nat \<lfloor>\<bar>r\<bar> * 10 ^ f + 1 / 2\<rfloor>;
              m = showNat n;
              m' = (if f \<noteq> 0 \<and> length m \<le> f
                    then replicate (f + 1 - length m) (CHR ''0'') @ m else m);
              k = length m'
          in if f = 0 then s @ m'
             else s @ take (k - f) m' @ ''.'' @ drop (k - f) m')"

section \<open>The standalone script\<close>

text \<open>
  The script of the treemap example (the \<open>.js\<close> file). An input record is an object;
  \<open>mapData\<close> reads its properties \<open>fundname\<close> and \<open>scale\<close> as they are, without conversion.
\<close>

definition BASE_RGB_js :: "nat list" where
  "BASE_RGB_js = [87, 129, 253]"

definition MIN_ALPHA_js :: jsnum where
  "MIN_ALPHA_js = Fin 0.5"

definition MAX_ALPHA_js :: jsnum where
  "MAX_ALPHA_js = Fin 0.9"

text \<open>
  \<open>mapData\<close> passes \<open>d.scale\<close> unconverted, so \<open>scale\<close> is any value here; its only use is
  the left operand of \<open>scale - min\<close>, which converts it to a number. \<open>min\<close> and \<open>max\<close>
  are results of \<open>Math.min\<close> and \<open>Math.max\<close>, hence numbers.
\<close>

definition computeAlpha_js :: "jsval \<Rightarrow> jsnum \<Rightarrow> jsnum \<Rightarrow> jsnum" where
  "computeAlpha_js scale mn mx =
     (if jeq mx mn then MAX_ALPHA_js
      else
        let lin = jdiv (jsub (ToNumber scale) mn) (jsub mx mn);
            t = jsub (Fin 0.5)
                  (jmul (Fin 0.5)
                     (Math_cos (jmul Math_PI (Math_min [Fin 1, Math_max [Fin 0, lin]]))))
        in Math_min
             [MAX_ALPHA_js,
              Math_max [MIN_ALPHA_js,
                        jadd MIN_ALPHA_js (jmul t (jsub MAX_ALPHA_js MIN_ALPHA_js))]])"

text \<open>An element of the \<open>data\<close> array of the treemap series.\<close>

record node =
  node_name :: jsval
  node_value :: jsval
  node_fundname :: jsval
  node_scale :: jsval
  node_color :: string

text \<open>The template literal that builds \<open>itemStyle.color\<close> from the alpha \<open>a\<close>.\<close>

definition color_js :: "jsnum \<Rightarrow> string" where
  "color_js a =
     ''rgba('' @ showNat (BASE_RGB_js ! 0) @ '', '' @ showNat (BASE_RGB_js ! 1) @ '', ''
       @ showNat (BASE_RGB_js ! 2) @ '', '' @ toFixed a 3 @ '')''"

text \<open>\<open>scales\<close>, and \<open>min\<close> and \<open>max\<close>: \<open>Math.min\<close> and \<open>Math.max\<close> convert their arguments.\<close>

definition scales_js :: "obj list \<Rightarrow> jsval list" where
  "scales_js src = map (\<lambda>d. getProp d ''scale'') src"

definition min_js :: "obj list \<Rightarrow> jsnum" where
  "min_js src = Math_min (map ToNumber (scales_js src))"

definition max_js :: "obj list \<Rightarrow> jsnum" where
  "max_js src = Math_max (map ToNumber (scales_js src))"

text \<open>The alphas \<open>a\<close> that \<open>mapData\<close> computes, one per record, in order.\<close>

definition alphas_js :: "obj list \<Rightarrow> jsnum list" where
  "alphas_js src =
     map (\<lambda>d. computeAlpha_js (getProp d ''scale'') (min_js src) (max_js src)) src"

definition mapData_js :: "obj list \<Rightarrow> node list" where
  "mapData_js src =
     (let mn = min_js src; mx = max_js src
      in map (\<lambda>d.
           let a = computeAlpha_js (getProp d ''scale'') mn mx
           in \<lparr> node_name = getProp d ''fundname'',
                node_value = getProp d ''scale'',
                node_fundname = getProp d ''fundname'',
                node_scale = getProp d ''scale'',
                node_color = color_js a \<rparr>) src)"

section \<open>The Vue components\<close>

text \<open>
  Both components read each element with \<open>d?.[key]\<close>, so an element may also be \<open>null\<close>
  or \<open>undefined\<close>; \<open>chartData\<close> itself may be absent (\<open>None\<close>).
\<close>

datatype elem = ENull | EUndefined | EObj obj

text \<open>\<open>d?.[key]\<close>.\<close>

definition optProp :: "elem \<Rightarrow> string \<Rightarrow> jsval" where
  "optProp d k = (case d of EObj ob \<Rightarrow> getProp ob k | _ \<Rightarrow> Undefined)"

text \<open>The props that \<open>mapData\<close> reads; the second component adds \<open>format\<close>.\<close>

record props =
  fontSize :: jsnum
  fundNameKey :: string
  scaleKey :: string

record fprops = props +
  format :: string

text \<open>An element of the \<open>data\<close> array: \<open>itemStyle\<close> and \<open>label\<close> are nested objects.\<close>

record itemStyle =
  color :: string

record label =
  label_show :: bool
  label_fontSize :: jsnum
  label_overflow :: string

record item =
  item_name :: jsval
  item_value :: jsnum
  item_fund_name :: jsval
  item_scale :: jsnum
  item_raw :: elem
  item_itemStyle :: itemStyle
  item_label :: label

subsection \<open>The first component\<close>

definition BASE_RGB_v1 :: "nat list" where
  "BASE_RGB_v1 = [87, 129, 253]"

definition MIN_ALPHA_v1 :: jsnum where
  "MIN_ALPHA_v1 = Fin 0.5"

definition MAX_ALPHA_v1 :: jsnum where
  "MAX_ALPHA_v1 = Fin 0.9"

definition computeAlpha_v1 :: "jsnum \<Rightarrow> jsnum \<Rightarrow> jsnum \<Rightarrow> jsnum" where
  "computeAlpha_v1 scale mn mx =
     (if jeq mx mn then MAX_ALPHA_v1
      else
        let lin = jdiv (jsub scale mn) (jsub mx mn);
            t = jsub (Fin 0.5)
                  (jmul (Fin 0.5)
                     (Math_cos (jmul Math_PI (Math_min [Fin 1, Math_max [Fin 0, lin]]))))
        in Math_min
             [MAX_ALPHA_v1,
              Math_max [MIN_ALPHA_v1,
                        jadd MIN_ALPHA_v1 (jmul t (jsub MAX_ALPHA_v1 MIN_ALPHA_v1))]])"

definition color_v1 :: "jsnum \<Rightarrow> string" where
  "color_v1 a =
     ''rgba('' @ showNat (BASE_RGB_v1 ! 0) @ '', '' @ showNat (BASE_RGB_v1 ! 1) @ '', ''
       @ showNat (BASE_RGB_v1 ! 2) @ '', '' @ toFixed a 3 @ '')''"

text \<open>\<open>Number(d?.[scaleKey]) || 0\<close>, with \<open>scaleKey = props.scaleKey || 'scale'\<close>.\<close>

definition scaleVal_v1 :: "props \<Rightarrow> elem \<Rightarrow> jsnum" where
  "scaleVal_v1 p d = orZero (ToNumber (optProp d (orString (scaleKey p) ''scale'')))"

definition scales_v1 :: "props \<Rightarrow> elem list \<Rightarrow> jsnum list" where
  "scales_v1 p src = map (scaleVal_v1 p) src"

text \<open>The alphas \<open>a\<close> that \<open>mapData\<close> computes, one per element, in order.\<close>

definition alphas_v1 :: "props \<Rightarrow> elem list \<Rightarrow> jsnum list" where
  "alphas_v1 p src =
     map (\<lambda>d. computeAlpha_v1 (scaleVal_v1 p d)
                 (Math_min (scales_v1 p src)) (Math_max (scales_v1 p src))) src"

definition mapData_v1 :: "props \<Rightarrow> elem list option \<Rightarrow> item list" where
  "mapData_v1 p src =
     (case src of
        None \<Rightarrow> []
      | Some [] \<Rightarrow> []
      | Some ds \<Rightarrow>
          let nameKey = orString (fundNameKey p) ''fund_name'';
              mn = Math_min (scales_v1 p ds);
              mx = Math_max (scales_v1 p ds)
          in map (\<lambda>d.
               let scaleVal = scaleVal_v1 p d;
                   nameVal = nullish (optProp d nameKey) (Str '''');
                   a = computeAlpha_v1 scaleVal mn mx
               in \<lparr> item_name = nameVal,
                    item_value = scaleVal,
                    item_fund_name = nameVal,
                    item_scale = scaleVal,
                    item_raw = d,
                    item_itemStyle = \<lparr> color = color_v1 a \<rparr>,
                    item_label = \<lparr> label_show = True,
                                   label_fontSize = fontSize p,
                                   label_overflow = ''truncate'' \<rparr> \<rparr>) ds)"

subsection \<open>The second component\<close>

text \<open>
  The formatters \<open>formatBig\<close>, \<open>digitToPercent\<close> and \<open>formatCurrency\<close> are imported from
  a module outside this repository; \<open>formatScale\<close> takes them as parameters.
\<close>

record formatters =
  formatBig :: "jsval \<Rightarrow> jsval"
  digitToPercent :: "jsval \<Rightarrow> jsval"
  formatCurrency :: "jsval \<Rightarrow> jsval"

definition formatScale :: "formatters \<Rightarrow> fprops \<Rightarrow> jsval \<Rightarrow> jsval" where
  "formatScale fs p v =
     (if v = Undefined \<or> v = Null \<or> v = Str '''' then Str ''''
      else if format p = ''large'' then formatBig fs v
      else if format p = ''percent'' then digitToPercent fs v
      else if format p = ''currency'' then formatCurrency fs v
      else v)"

definition BASE_RGB_v2 :: "nat list" where
  "BASE_RGB_v2 = [87, 129, 253]"

definition MIN_ALPHA_v2 :: jsnum where
  "MIN_ALPHA_v2 = Fin 0.5"

definition MAX_ALPHA_v2 :: jsnum where
  "MAX_ALPHA_v2 = Fin 0.9"

definition computeAlpha_v2 :: "jsnum \<Rightarrow> jsnum \<Rightarrow> jsnum \<Rightarrow> jsnum" where
  "computeAlpha_v2 scale mn mx =
     (if jeq mx mn then MAX_ALPHA_v2
      else
        let lin = jdiv (jsub scale mn) (jsub mx mn);
            t = jsub (Fin 0.5)
                  (jmul (Fin 0.5)
                     (Math_cos (jmul Math_PI (Math_min [Fin 1, Math_max [Fin 0, lin]]))))
        in Math_min
             [MAX_ALPHA_v2,
              Math_max [MIN_ALPHA_v2,
                        jadd MIN_ALPHA_v2 (jmul t (jsub MAX_ALPHA_v2 MIN_ALPHA_v2))]])"

definition color_v2 :: "jsnum \<Rightarrow> string" where
  "color_v2 a =
     ''rgba('' @ showNat (BASE_RGB_v2 ! 0) @ '', '' @ showNat (BASE_RGB_v2 ! 1) @ '', ''
       @ showNat (BASE_RGB_v2 ! 2) @ '', '' @ toFixed a 3 @ '')''"

definition scaleVal_v2 :: "fprops \<Rightarrow> elem \<Rightarrow> jsnum" where
  "scaleVal_v2 p d = orZero (ToNumber (optProp d (orString (scaleKey p) ''scale'')))"

definition scales_v2 :: "fprops \<Rightarrow> elem list \<Rightarrow> jsnum list" where
  "scales_v2 p src = map (scaleVal_v2 p) src"

definition alphas_v2 :: "fprops \<Rightarrow> elem list \<Rightarrow> jsnum list" where
  "alphas_v2 p src =
     map (\<lambda>d. computeAlpha_v2 (scaleVal_v2 p d)
                 (Math_min (scales_v2 p src)) (Math_max (scales_v2 p src))) src"

definition mapData_v2 :: "fprops \<Rightarrow> elem list option \<Rightarrow> item list" where
  "mapData_v2 p src =
     (case src of
        None \<Rightarrow> []
      | Some [] \<Rightarrow> []
      | Some ds \<Rightarrow>
          let nameKey = orString (fundNameKey p) ''fund_name'';
              mn = Math_min (scales_v2 p ds);
              mx = Math_max (scales_v2 p ds)
          in map (\<lambda>d.
               let scaleVal = scaleVal_v2 p d;
                   nameVal = nullish (optProp d nameKey) (Str '''');
                   a = computeAlpha_v2 scaleVal mn mx
               in \<lparr> item_name = nameVal,
                    item_value = scaleVal,
                    item_fund_name = nameVal,
                    item_scale = scaleVal,
                    item_raw = d,
                    item_itemStyle = \<lparr> color = color_v2 a \<rparr>,
                    item_label = \<lparr> label_show = True,
                                   label_fontSize = fontSize p,
                                   label_overflow = ''truncate'' \<rparr> \<rparr>) ds)"

text \<open>The props' declared defaults.\<close>

definition defaultProps_v1 :: props where
  "defaultProps_v1 = \<lparr> fontSize = Fin 12, fundNameKey = ''fund_name'', scaleKey = ''scale'' \<rparr>"

definition defaultProps_v2 :: fprops where
  "defaultProps_v2 =
     \<lparr> fontSize = Fin 12, fundNameKey = ''name'', scaleKey = ''scale'', format = '''' \<rparr>"

section \<open>Notions used in the properties\<close>

text \<open>
  The band \<open>[MIN_ALPHA, MAX_ALPHA] = [0.5, 0.9]\<close>, with JavaScript's comparisons: NaN is
  not in it.
\<close>

definition inBand :: "jsnum \<Rightarrow> bool" where
  "inBand a = (jle (Fin 0.5) a \<and> jle a (Fin 0.9))"

text \<open>
  A malformed scale field: absent or \<open>undefined\<close> (both read as \<open>undefined\<close>), \<open>null\<close>, or
  a string that is not a numeric literal.
\<close>

fun malformedScale :: "jsval \<Rightarrow> bool" where
  "malformedScale Undefined = True"
| "malformedScale Null = True"
| "malformedScale (Str s) = (StringToNumber s = NaN)"
| "malformedScale v = False"

text \<open>A decimal digit.\<close>

definition isDigitChar :: "char \<Rightarrow> bool" where
  "isDigitChar c = (c \<in> set ''0123456789'')"

text \<open>The scenario of the specification: four records named A to D.\<close>

definition scenario :: "obj list" where
  "scenario =
     [[(''name'', Str ''A''), (''scale'', Num (Fin 200))],
      [(''name'', Str ''B''), (''scale'', Num (Fin 150))],
      [(''name'', Str ''C''), (''scale'', Num (Fin 100))],
      [(''name'', Str ''D''), (''scale'', Num (Fin 50))]]"

text \<open>Two records, the first with the scale \<open>Infinity\<close>.\<close>

definition withInfinity :: "obj list" where
  "withInfinity =
     [[(''name'', Str ''A''), (''scale'', Num PInf)],
      [(''name'', Str ''B''), (''scale'', Num (Fin 1))]]"

text \<open>One record without a scale field.\<close>

definition withoutScale :: "obj list" where
  "withoutScale = [[(''name'', Str ''Z'')]]"

text \<open>Two records with the same scale.\<close>

definition sameScale :: "obj list" where
  "sameScale =
     [[(''name'', Str ''X''), (''scale'', Num (Fin 10))],
      [(''name'', Str ''Y''), (''scale'', Num (Fin 10))]]"

text \<open>Two records, the first with its scale given as a numeric string.\<close>

definition withNumericString :: "obj list" where
  "withNumericString =
     [[(''name'', Str ''S''), (''scale'', Str ''50'')],
      [(''name'', Str ''T''), (''scale'', Num (Fin 100))]]"

text \<open>Three records with finite scales whose range \<open>max - min\<close> overflows.\<close>

definition withHugeScales :: "obj list" where
  "withHugeScales =
     [[(''name'', Str ''L''), (''scale'', Num (Fin (- (10 ^ 308))))],
      [(''name'', Str ''M''), (''scale'', Num (Fin 0))],
      [(''name'', Str ''H''), (''scale'', Num (Fin (10 ^ 308)))]]"

text \<open>
  Scales given as numeric strings: with white space around, an exponent, a fraction, a
  sign, a radix prefix, \<open>Infinity\<close>, digits that are not a binary64 number, and literals
  that overflow and underflow.
\<close>

definition numericStrings :: "obj list" where
  "numericStrings = map (\<lambda>s. [(''scale'', Str s)])
     [''50'', '' 50 '', CHR 0x09 # ''12'' @ [CHR 0x0A], CHR 0xA0 # ''8'', ''1e3'', ''12E+2'',
      ''5e-1'',
      ''2.5'', ''.5'', ''5.'', ''+7'', ''-1.5'', ''0x1F'', ''0b101'', ''0o17'',
      ''Infinity'', ''-Infinity'', ''9007199254740993'', ''1e400'', ''1e-400'']"

text \<open>Scales given as strings that are not numeric literals, or that denote zero.\<close>

definition nonNumericStrings :: "obj list" where
  "nonNumericStrings = map (\<lambda>s. [(''scale'', Str s)])
     [''abc'', ''12px'', ''1e'', ''e5'', ''0x'', ''1.2.3'', ''--5'', ''.'', ''infinity'',
      ''1_000'', ''5 0'', [], ''   '', ''0'', ''-0'']"

text \<open>Records whose scale is absent, \<open>null\<close>, \<open>undefined\<close> or not numeric, and a well-formed one.\<close>

definition malformedInput :: "elem list" where
  "malformedInput =
     [EObj [(''name'', Str ''Z'')],
      EObj [(''name'', Str ''N''), (''scale'', Null)],
      EObj [(''name'', Str ''U''), (''scale'', Undefined)],
      EObj [(''name'', Str ''W''), (''scale'', Str ''abc'')],
      EObj [(''name'', Str ''G''), (''scale'', Num (Fin 7))]]"

section \<open>Evaluation rules\<close>

lemma showNat_digit: "n < 10 \<Longrightarrow> showNat n = [''0123456789'' ! n]"
  by (subst showNat.simps) simp

lemma showNat_more:
  "10 \<le> n \<Longrightarrow> showNat n = showNat (n div 10) @ [''0123456789'' ! (n mod 10)]"
  by (subst showNat.simps) simp

lemma min2_PInf_right [simp]: "min2 b PInf = b"
  by (cases b) (simp_all add: min2_def)

lemma max2_NInf_right [simp]: "max2 b NInf = b"
  by (cases b) (simp_all add: max2_def)

lemma min2_Fin [simp]: "min2 (Fin a) (Fin b) = Fin (min a b)"
  by (simp add: min2_def min_def)

lemma max2_Fin [simp]: "max2 (Fin a) (Fin b) = Fin (max a b)"
  by (auto simp add: max2_def max_def)

lemma min2_cases [simp]:
  "min2 (Fin a) NInf = NInf" "min2 PInf (Fin b) = Fin b" "min2 NInf (Fin b) = NInf"
  "min2 PInf NInf = NInf" "min2 NInf PInf = NInf" "min2 u NaN = NaN" "min2 NaN v = NaN"
  by (simp_all add: min2_def)

lemma max2_cases [simp]:
  "max2 (Fin a) PInf = PInf" "max2 PInf (Fin b) = PInf" "max2 NInf (Fin b) = Fin b"
  "max2 PInf NInf = PInf" "max2 NInf PInf = PInf" "max2 u NaN = NaN" "max2 NaN v = NaN"
  by (simp_all add: max2_def)

lemma min2_idem [simp]: "min2 c c = c"
  by (cases c) (simp_all add: min2_def)

lemma max2_idem [simp]: "max2 c c = c"
  by (cases c) (simp_all add: max2_def)

lemma jle_Fin [simp]: "jle (Fin a) (Fin b) = (a \<le> b)"
  by (auto simp: jle_def jeq_def)

lemma inBand_Fin [simp]: "inBand (Fin a) = (1/2 \<le> a \<and> a \<le> 9/10)"
  by (simp add: inBand_def)

lemma inBand_NaN [simp]: "\<not> inBand NaN"
  by (simp add: inBand_def jle_def jeq_def)

lemma orZero_not_NaN [simp]: "orZero n \<noteq> NaN"
  by (simp add: orZero_def)

text \<open>The number of an exact result within the finite range, at overflow, and of a multiple of \<open>pi\<close>.\<close>

lemma numberOf_0 [simp]: "numberOf 0 = Fin 0"
  by (simp add: numberOf_def)

lemma numberOf_finite:
  "1 / 2 ^ 1075 < \<bar>r\<bar> \<Longrightarrow> \<bar>r\<bar> < 2 ^ 1024 - 2 ^ 970 \<Longrightarrow> numberOf r = Fin r"
  by (auto simp add: numberOf_def)

lemma numberOf_overflow: "2 ^ 1024 \<le> r \<Longrightarrow> numberOf r = PInf"
  by (simp add: numberOf_def)

lemma numberOf_pi_multiple:
  assumes "1 / 4 \<le> c" and "c \<le> 4"
  shows "numberOf (pi * c) = Fin (pi * c)"
proof -
  have "2 * (1 / 4) \<le> pi * c" using assms(1) pi_ge_two by (intro mult_mono) simp_all
  moreover have "pi * c \<le> 4 * 4" using assms pi_less_4 by (intro mult_mono) simp_all
  ultimately have "1 / 2 ^ 1075 < \<bar>pi * c\<bar>" "\<bar>pi * c\<bar> < 2 ^ 1024 - 2 ^ 970"
    by simp_all
  then show ?thesis by (rule numberOf_finite)
qed

lemma numberOf_pi:
  "numberOf pi = Fin pi" "numberOf (pi / 3) = Fin (pi / 3)"
  "numberOf (pi * 2 / 3) = Fin (pi * 2 / 3)"
  using numberOf_pi_multiple[of 1] numberOf_pi_multiple[of "1/3"] numberOf_pi_multiple[of "2/3"]
  by simp_all

text \<open>Rounding to binary64: within a binade, at overflow, at underflow, of an exact value.\<close>

lemma roundHalfEven_int: "roundHalfEven (of_int n) = n"
  by (simp add: roundHalfEven_def)

lemma roundHalfEven_ge_floor: "\<lfloor>x\<rfloor> \<le> roundHalfEven x"
  by (simp add: roundHalfEven_def Let_def)

lemma floor_log2:
  assumes "2 powr of_int e \<le> a" and "a < 2 powr of_int (e + 1)"
  shows "\<lfloor>log 2 a\<rfloor> = e"
proof -
  have pos: "0 < a" using assms(1) by (rule less_le_trans[rotated]) simp
  have "of_int e \<le> log 2 a" using assms(1) pos by (simp add: le_log_iff)
  moreover have "log 2 a < of_int e + 1" using assms(2) pos by (simp add: log_less_iff)
  ultimately show ?thesis by (simp add: floor_eq_iff)
qed

lemma roundToDouble_binade:
  assumes "2 powr of_int e \<le> \<bar>r\<bar>" and "\<bar>r\<bar> < 2 powr of_int (e + 1)" and "- 1022 \<le> e"
  shows "roundToDouble r =
    (if (2::real) ^ 1024 \<le> of_int (roundHalfEven (\<bar>r\<bar> / 2 powr of_int (e - 52))) * 2 powr of_int (e - 52)
     then signedInf (0 < r)
     else Fin (if 0 < r then of_int (roundHalfEven (\<bar>r\<bar> / 2 powr of_int (e - 52))) * 2 powr of_int (e - 52)
               else - (of_int (roundHalfEven (\<bar>r\<bar> / 2 powr of_int (e - 52))) * 2 powr of_int (e - 52))))"
proof -
  have "0 < \<bar>r\<bar>" using assms(1) by (rule less_le_trans[rotated]) simp
  then have nz: "r \<noteq> 0" by simp
  have e: "max \<lfloor>log 2 \<bar>r\<bar>\<rfloor> (- 1022) = e"
    using floor_log2[OF assms(1,2)] assms(3) by simp
  show ?thesis
    using nz by (simp only: roundToDouble_def Let_def e if_False)
qed

lemma roundToDouble_overflow:
  assumes "2 ^ 1024 \<le> \<bar>r\<bar>"
  shows "roundToDouble r = signedInf (0 < r)"
proof -
  define a :: real where "a = \<bar>r\<bar>"
  define e where "e = \<lfloor>log 2 a\<rfloor>"
  define u :: real where "u = 2 powr of_int (e - 52)"
  have big: "2 ^ 1024 \<le> a" using assms by (simp add: a_def)
  then have apos: "0 < a" by (rule less_le_trans[rotated]) simp
  then have nz: "r \<noteq> 0" by (auto simp: a_def)
  have "(2::real) powr 1024 \<le> a" using big by (simp flip: powr_numeral add: powr_realpow)
  then have "1024 \<le> log 2 a" using apos by (simp add: le_log_iff)
  then have e1024: "1024 \<le> e" by (simp add: e_def le_floor_iff)
  then have emax: "max \<lfloor>log 2 a\<rfloor> (- 1022) = e" by (simp add: e_def)
  have "of_int e \<le> log 2 a" by (simp add: e_def)
  then have ea: "2 powr of_int e \<le> a" using apos by (simp add: le_log_iff)
  have upos: "0 < u" by (simp add: u_def)
  have "2 powr of_int e = 2 ^ 52 * u"
    by (simp add: u_def powr_diff flip: powr_numeral)
  with ea have "2 ^ 52 \<le> a / u" using upos by (simp add: field_simps)
  then have "(2::int) ^ 52 \<le> \<lfloor>a / u\<rfloor>" by (simp add: le_floor_iff)
  also have "\<dots> \<le> roundHalfEven (a / u)" by (rule roundHalfEven_ge_floor)
  finally have "(2::real) ^ 52 \<le> of_int (roundHalfEven (a / u))"
    by (metis of_int_le_iff of_int_numeral of_int_power)
  then have "2 ^ 52 * u \<le> of_int (roundHalfEven (a / u)) * u"
    using upos by (simp add: mult_right_mono)
  moreover have "(2::real) ^ 1024 \<le> 2 ^ 52 * u"
  proof -
    have "(2::real) powr of_int 1024 \<le> 2 powr of_int e"
      by (rule powr_mono) (use e1024 in simp_all)
    moreover have "(2::real) powr of_int 1024 = 2 ^ 1024" by simp
    ultimately show ?thesis using \<open>2 powr of_int e = 2 ^ 52 * u\<close> by simp
  qed
  ultimately have v: "2 ^ 1024 \<le> of_int (roundHalfEven (a / u)) * u" by linarith
  have "roundToDouble r =
      (if 2 ^ 1024 \<le> of_int (roundHalfEven (a / u)) * u then signedInf (0 < r)
       else Fin (if 0 < r then of_int (roundHalfEven (a / u)) * u
                 else - (of_int (roundHalfEven (a / u)) * u)))"
    using nz emax by (simp only: roundToDouble_def Let_def a_def u_def if_False)
  then show ?thesis using v by (simp only: if_True)
qed

lemma roundToDouble_underflow:
  assumes "\<bar>r\<bar> < 1 / 2 ^ 1075"
  shows "roundToDouble r = Fin 0"
proof (cases "r = 0")
  case True
  then show ?thesis by (simp add: roundToDouble_def)
next
  case False
  define a :: real where "a = \<bar>r\<bar>"
  define u :: real where "u = 2 powr of_int (- 1022 - 52)"
  have apos: "0 < a" using False by (simp add: a_def)
  have "a < 2 powr (- 1075)" using assms
    by (simp add: a_def powr_minus powr_realpow inverse_eq_divide flip: powr_numeral)
  then have "log 2 a < - 1075" using apos by (simp add: log_less_iff)
  then have "\<lfloor>log 2 a\<rfloor> < - 1075" by (simp add: floor_less_iff)
  then have emax: "max \<lfloor>log 2 a\<rfloor> (- 1022) = - 1022" by simp
  have u: "u = 1 / 2 ^ 1074"
    by (simp add: u_def powr_minus powr_realpow inverse_eq_divide flip: powr_numeral)
  have half: "a / u < 1 / 2" using assms by (simp add: u a_def)
  have nonneg: "0 \<le> a / u" using apos by (simp add: u)
  from half have "a / u < 1" by linarith
  with nonneg have fl: "\<lfloor>a / u\<rfloor> = 0" by (simp only: floor_eq_iff) simp
  have "roundHalfEven (a / u) = 0"
    unfolding roundHalfEven_def Let_def fl using half by simp
  then have v: "of_int (roundHalfEven (a / u)) * u = 0" by simp
  have "roundToDouble r =
      (if 2 ^ 1024 \<le> of_int (roundHalfEven (a / u)) * u then signedInf (0 < r)
       else Fin (if 0 < r then of_int (roundHalfEven (a / u)) * u
                 else - (of_int (roundHalfEven (a / u)) * u)))"
    using False emax by (simp only: roundToDouble_def Let_def a_def u_def if_False)
  then show ?thesis by (simp only: v) simp
qed

lemma roundToDouble_exact:
  fixes k :: nat
  assumes int: "of_int \<lfloor>r * 2 ^ k\<rfloor> = r * 2 ^ k"
    and small: "\<bar>r\<bar> * 2 ^ k < 2 ^ 53"
    and k: "k \<le> 1074"
  shows "roundToDouble r = Fin r"
proof (cases "r = 0")
  case True
  then show ?thesis by (simp add: roundToDouble_def)
next
  case False
  define a :: real where "a = \<bar>r\<bar>"
  define e where "e = max \<lfloor>log 2 a\<rfloor> (- 1022)"
  define u :: real where "u = 2 powr of_int (e - 52)"
  have apos: "0 < a" using False by (simp add: a_def)
  have upos: "0 < u" by (simp add: u_def)
  have "a < 2 ^ 53 / 2 ^ k" using small by (simp add: a_def field_simps)
  also have "\<dots> = 2 powr (53 - real k)"
    by (simp add: powr_diff powr_realpow flip: powr_numeral)
  finally have "log 2 a < 53 - real k" using apos by (simp add: log_less_iff)
  then have "\<lfloor>log 2 a\<rfloor> < 53 - int k" by (simp add: floor_less_iff)
  then have ele: "e \<le> 52 - int k" using k by (simp add: e_def)
  define d where "d = nat (52 - int k - e)"
  have d: "int d = 52 - int k - e" using ele by (simp add: d_def)
  have "a / u = a * 2 powr of_int (52 - e)"
    by (simp add: u_def powr_diff field_simps flip: powr_minus)
  also have "of_int (52 - e) = real k + real d" using d by simp
  also have "a * 2 powr (real k + real d) = (a * 2 ^ k) * 2 ^ d"
    by (simp add: powr_add powr_realpow)
  finally have au: "a / u = (a * 2 ^ k) * 2 ^ d" .
  have "a * 2 ^ k = \<bar>r * 2 ^ k\<bar>" by (simp add: a_def abs_mult)
  also have "\<dots> = \<bar>of_int \<lfloor>r * 2 ^ k\<rfloor>\<bar>" by (simp only: int)
  also have "\<dots> = of_int \<bar>\<lfloor>r * 2 ^ k\<rfloor>\<bar>" by (simp only: of_int_abs)
  finally have "a / u = of_int (\<bar>\<lfloor>r * 2 ^ k\<rfloor>\<bar> * 2 ^ d)" using au by simp
  then have "of_int (roundHalfEven (a / u)) = a / u"
    by (simp only: roundHalfEven_int)
  then have v: "of_int (roundHalfEven (a / u)) * u = a" using upos by simp
  have "a \<le> a * 2 ^ k" using apos by (simp add: mult_le_cancel_left1)
  also have "\<dots> < 2 ^ 53" using small by (simp add: a_def)
  also have "\<dots> < (2::real) ^ 1024" by simp
  finally have lt: "a < 2 ^ 1024" .
  have "roundToDouble r =
      (if 2 ^ 1024 \<le> of_int (roundHalfEven (a / u)) * u then signedInf (0 < r)
       else Fin (if 0 < r then of_int (roundHalfEven (a / u)) * u
                 else - (of_int (roundHalfEven (a / u)) * u)))"
    using False by (simp only: roundToDouble_def Let_def a_def e_def u_def if_False)
  also have "\<dots> = (if 2 ^ 1024 \<le> a then signedInf (0 < r)
       else Fin (if 0 < r then a else - a))"
    by (simp only: v)
  also have "\<dots> = Fin (if 0 < r then a else - a)"
    using lt by simp
  also have "(if 0 < r then a else - a) = r"
    by (simp add: a_def)
  finally show ?thesis .
qed

text \<open>Integers and halves of integers below \<open>2^53\<close> are not changed by rounding.\<close>

lemmas roundToDouble_small = roundToDouble_exact[where k = 0] roundToDouble_exact[where k = 1]

lemma roundToDouble_examples:
  "roundToDouble 9007199254740993 = Fin 9007199254740992"
  "roundToDouble (10 ^ 400) = PInf"
  "roundToDouble (1 / 10 ^ 400) = Fin 0"
proof -
  show "roundToDouble 9007199254740993 = Fin 9007199254740992"
    using roundToDouble_binade[of 53 9007199254740993] by (simp add: roundHalfEven_def)
  show "roundToDouble (10 ^ 400) = PInf"
    by (simp add: roundToDouble_overflow signedInf_def)
  show "roundToDouble (1 / 10 ^ 400) = Fin 0"
    by (simp add: roundToDouble_underflow)
qed

lemmas parse_defs =
  StringToNumber_def trimString_def isStrWhiteSpaceChar_def radixOfPrefix_def
  parseDecimal_def parseUnsignedDecimal_def parseMantissa_def parseDigits_def digitIn_def
  digitValue_def parseExponent_def roundToDouble_small

text \<open>Unfolding \<open>computeAlpha\<close> at concrete numbers.\<close>

lemmas alpha_defs =
  jeq_def jsub_def Math_PI_def Let_def signedInf_def numberOf_finite numberOf_overflow
  numberOf_pi cos_60 cos_120'

lemmas field_defs =
  optProp_def getProp_def orString_def orZero_def nullish_def
  defaultProps_v1_def defaultProps_v2_def

lemmas color_defs =
  color_js_def color_v1_def color_v2_def BASE_RGB_js_def BASE_RGB_v1_def BASE_RGB_v2_def
  toFixed_def showNat_digit showNat_more

section \<open>The three \<open>computeAlpha\<close> compute the same function\<close>

lemma computeAlpha_v2_v1: "computeAlpha_v2 s mn mx = computeAlpha_v1 s mn mx"
  by (simp add: computeAlpha_v2_def computeAlpha_v1_def MIN_ALPHA_v1_def MIN_ALPHA_v2_def
      MAX_ALPHA_v1_def MAX_ALPHA_v2_def)

lemma computeAlpha_js_v1: "computeAlpha_js v mn mx = computeAlpha_v1 (ToNumber v) mn mx"
  by (simp add: computeAlpha_js_def computeAlpha_v1_def MIN_ALPHA_v1_def MIN_ALPHA_js_def
      MAX_ALPHA_v1_def MAX_ALPHA_js_def)

section \<open>The early return and the final clamp of \<open>computeAlpha\<close>\<close>

lemma computeAlpha_v1_degenerate: "jeq mx mn \<Longrightarrow> computeAlpha_v1 s mn mx = Fin (9/10)"
  by (simp add: computeAlpha_v1_def MAX_ALPHA_v1_def)

text \<open>The final clamp puts every result that is not NaN into the band.\<close>

lemma clamp_cases:
  "min2 (Fin (9/10)) (max2 (Fin (1/2)) v) = NaN
     \<or> inBand (min2 (Fin (9/10)) (max2 (Fin (1/2)) v))"
  by (cases v) simp_all

lemma computeAlpha_v1_NaN_or_inBand:
  "computeAlpha_v1 s mn mx = NaN \<or> inBand (computeAlpha_v1 s mn mx)"
proof (cases "jeq mx mn")
  case True
  then show ?thesis by (simp add: computeAlpha_v1_def MAX_ALPHA_v1_def)
next
  case False
  then show ?thesis
    using clamp_cases
    by (simp add: computeAlpha_v1_def MAX_ALPHA_v1_def MIN_ALPHA_v1_def Let_def)
qed

section \<open>\<open>Math.min\<close> and \<open>Math.max\<close> over a list\<close>

lemma Math_min_const: "xs \<noteq> [] \<Longrightarrow> \<forall>x\<in>set xs. x = c \<Longrightarrow> Math_min xs = c"
  by (induction xs rule: list_nonempty_induct) simp_all

lemma Math_max_const: "xs \<noteq> [] \<Longrightarrow> \<forall>x\<in>set xs. x = c \<Longrightarrow> Math_max xs = c"
  by (induction xs rule: list_nonempty_induct) simp_all

section \<open>The second component computes what the first does\<close>

lemma scaleVal_v2_v1: "scaleVal_v2 p d = scaleVal_v1 (props.truncate p) d"
  by (simp add: scaleVal_v2_def scaleVal_v1_def props.truncate_def)

lemma scales_v2_v1: "scales_v2 p ds = scales_v1 (props.truncate p) ds"
  by (simp add: scales_v2_def scales_v1_def scaleVal_v2_v1)

lemma alphas_v2_v1: "alphas_v2 p ds = alphas_v1 (props.truncate p) ds"
  by (simp add: alphas_v2_def alphas_v1_def scaleVal_v2_v1 scales_v2_v1 computeAlpha_v2_v1)

lemma color_v2_v1: "color_v2 a = color_v1 a"
  by (simp add: color_v2_def color_v1_def BASE_RGB_v1_def BASE_RGB_v2_def)

lemma color_js_v1: "color_js a = color_v1 a"
  by (simp add: color_js_def color_v1_def BASE_RGB_v1_def BASE_RGB_js_def)

lemma mapData_v2_v1: "mapData_v2 p src = mapData_v1 (props.truncate p) src"
  by (simp add: mapData_v2_def mapData_v1_def scaleVal_v2_v1 scales_v2_v1 computeAlpha_v2_v1
      color_v2_v1 props.truncate_def split: option.splits list.splits)

section \<open>The records that \<open>mapData\<close> returns\<close>

lemma alphas_js_v1:
  "alphas_js src = map (\<lambda>d. computeAlpha_v1 (ToNumber (getProp d ''scale'')) (min_js src) (max_js src)) src"
  by (simp add: alphas_js_def computeAlpha_js_v1)

lemma length_mapData_js: "length (mapData_js src) = length src"
  by (simp add: mapData_js_def Let_def)

lemma mapData_js_nth:
  assumes "i < length src"
  shows "mapData_js src ! i =
    \<lparr> node_name = getProp (src ! i) ''fundname'',
      node_value = getProp (src ! i) ''scale'',
      node_fundname = getProp (src ! i) ''fundname'',
      node_scale = getProp (src ! i) ''scale'',
      node_color = color_js (alphas_js src ! i) \<rparr>"
  using assms by (simp add: mapData_js_def alphas_js_def Let_def)

lemma length_mapData_v1: "length (mapData_v1 p (Some ds)) = length ds"
  by (cases ds) (simp_all add: mapData_v1_def Let_def)

lemma mapData_v1_nth:
  assumes "i < length ds"
  shows "mapData_v1 p (Some ds) ! i =
    \<lparr> item_name = nullish (optProp (ds ! i) (orString (fundNameKey p) ''fund_name'')) (Str ''''),
      item_value = scaleVal_v1 p (ds ! i),
      item_fund_name = nullish (optProp (ds ! i) (orString (fundNameKey p) ''fund_name'')) (Str ''''),
      item_scale = scaleVal_v1 p (ds ! i),
      item_raw = ds ! i,
      item_itemStyle = \<lparr> color = color_v1 (alphas_v1 p ds ! i) \<rparr>,
      item_label = \<lparr> label_show = True, label_fontSize = fontSize p,
                     label_overflow = ''truncate'' \<rparr> \<rparr>"
proof (cases ds)
  case Nil
  with assms show ?thesis by simp
next
  case (Cons d ds')
  have "mapData_v1 p (Some ds) =
    map (\<lambda>d. \<lparr> item_name = nullish (optProp d (orString (fundNameKey p) ''fund_name'')) (Str ''''),
      item_value = scaleVal_v1 p d,
      item_fund_name = nullish (optProp d (orString (fundNameKey p) ''fund_name'')) (Str ''''),
      item_scale = scaleVal_v1 p d,
      item_raw = d,
      item_itemStyle = \<lparr> color = color_v1 (computeAlpha_v1 (scaleVal_v1 p d)
                 (Math_min (scales_v1 p ds)) (Math_max (scales_v1 p ds))) \<rparr>,
      item_label = \<lparr> label_show = True, label_fontSize = fontSize p,
                     label_overflow = ''truncate'' \<rparr> \<rparr>) ds"
    unfolding Cons by (simp add: mapData_v1_def Let_def)
  then show ?thesis using assms by (simp add: alphas_v1_def)
qed

lemma length_mapData_v2: "length (mapData_v2 p (Some ds)) = length ds"
  by (simp add: mapData_v2_v1 length_mapData_v1)

lemma mapData_v2_nth:
  assumes "i < length ds"
  shows "mapData_v2 p (Some ds) ! i =
    \<lparr> item_name = nullish (optProp (ds ! i) (orString (fundNameKey p) ''fund_name'')) (Str ''''),
      item_value = scaleVal_v2 p (ds ! i),
      item_fund_name = nullish (optProp (ds ! i) (orString (fundNameKey p) ''fund_name'')) (Str ''''),
      item_scale = scaleVal_v2 p (ds ! i),
      item_raw = ds ! i,
      item_itemStyle = \<lparr> color = color_v2 (alphas_v2 p ds ! i) \<rparr>,
      item_label = \<lparr> label_show = True, label_fontSize = fontSize p,
                     label_overflow = ''truncate'' \<rparr> \<rparr>"
  using assms
  by (simp add: mapData_v2_v1 mapData_v1_nth scaleVal_v2_v1 alphas_v2_v1 color_v2_v1
      props.truncate_def)

section \<open>Lists of scales\<close>

lemma alphas_v1_nth:
  "i < length ds \<Longrightarrow> alphas_v1 p ds ! i =
     computeAlpha_v1 (scales_v1 p ds ! i) (Math_min (scales_v1 p ds)) (Math_max (scales_v1 p ds))"
  by (simp add: alphas_v1_def scales_v1_def)

lemma alphas_js_nth:
  "i < length src \<Longrightarrow> alphas_js src ! i =
     computeAlpha_v1 (map ToNumber (scales_js src) ! i)
       (Math_min (map ToNumber (scales_js src))) (Math_max (map ToNumber (scales_js src)))"
  by (simp add: alphas_js_v1 scales_js_def min_js_def max_js_def)

lemma equal_scales_max_alpha:
  assumes "xs \<noteq> []" and "\<forall>x\<in>set xs. \<forall>y\<in>set xs. jeq x y" and "x \<in> set xs"
  shows "computeAlpha_v1 x (Math_min xs) (Math_max xs) = Fin (9/10)"
proof -
  from assms(2,3) have all: "\<forall>y\<in>set xs. y = x" and "x \<noteq> NaN"
    by (auto simp: jeq_def)
  then have "Math_min xs = x" "Math_max xs = x"
    using assms(1) by (simp_all add: Math_min_const Math_max_const)
  then show ?thesis using \<open>x \<noteq> NaN\<close> by (simp add: computeAlpha_v1_degenerate jeq_def)
qed

section \<open>Evaluation at the sample inputs\<close>

lemmas alphas_eval =
  alphas_v1_def scales_v1_def scaleVal_v1_def alphas_v2_def scales_v2_def scaleVal_v2_def
  alphas_js_def scales_js_def min_js_def max_js_def computeAlpha_v2_v1 computeAlpha_js_v1

lemma withInfinity_alphas_v1:
  "alphas_v1 defaultProps_v1 (map EObj withInfinity) = [NaN, Fin (1/2)]"
  by (simp add: alphas_eval field_defs withInfinity_def computeAlpha_v1_def alpha_defs
      MIN_ALPHA_v1_def MAX_ALPHA_v1_def)

lemma withInfinity_alphas_v2:
  "alphas_v2 defaultProps_v2 (map EObj withInfinity) = [NaN, Fin (1/2)]"
  by (simp add: alphas_eval field_defs withInfinity_def computeAlpha_v1_def alpha_defs
      MIN_ALPHA_v1_def MAX_ALPHA_v1_def)

lemma withInfinity_alphas_js: "alphas_js withInfinity = [NaN, Fin (1/2)]"
  by (simp add: alphas_eval field_defs withInfinity_def computeAlpha_v1_def alpha_defs
      MIN_ALPHA_v1_def MAX_ALPHA_v1_def)

lemma color_v1_NaN: "color_v1 NaN = ''rgba(87, 129, 253, NaN)''"
  by (simp add: color_defs)

lemma color_v1_half: "color_v1 (Fin (1/2)) = ''rgba(87, 129, 253, 0.500)''"
  by (simp add: color_defs)

lemma color_v1_max: "color_v1 (Fin (9/10)) = ''rgba(87, 129, 253, 0.900)''"
  by (simp add: color_defs)

lemma scenario_scales_js: "map ToNumber (scales_js scenario) = [Fin 200, Fin 150, Fin 100, Fin 50]"
  by (simp add: scales_js_def scenario_def getProp_def)

lemma scenario_scales_v1:
  "scales_v1 defaultProps_v1 (map EObj scenario) = [Fin 200, Fin 150, Fin 100, Fin 50]"
  by (simp add: scales_v1_def scaleVal_v1_def scenario_def field_defs)

lemma scenario_scales_v2:
  "scales_v2 defaultProps_v2 (map EObj scenario) = [Fin 200, Fin 150, Fin 100, Fin 50]"
  by (simp add: scales_v2_def scaleVal_v2_def scenario_def field_defs)

lemma scenario_alphas_v1:
  "alphas_v1 defaultProps_v1 (map EObj scenario) = [Fin (9/10), Fin (8/10), Fin (6/10), Fin (1/2)]"
  by (simp add: alphas_eval field_defs scenario_def computeAlpha_v1_def alpha_defs
      MIN_ALPHA_v1_def MAX_ALPHA_v1_def)

lemma scenario_alphas_v2:
  "alphas_v2 defaultProps_v2 (map EObj scenario) = [Fin (9/10), Fin (8/10), Fin (6/10), Fin (1/2)]"
  by (simp add: alphas_eval field_defs scenario_def computeAlpha_v1_def alpha_defs
      MIN_ALPHA_v1_def MAX_ALPHA_v1_def)

lemma scenario_alphas_js:
  "alphas_js scenario = [Fin (9/10), Fin (8/10), Fin (6/10), Fin (1/2)]"
  by (simp add: alphas_eval field_defs scenario_def computeAlpha_v1_def alpha_defs
      MIN_ALPHA_v1_def MAX_ALPHA_v1_def)

section \<open>The claims\<close>

subsection \<open>C1: the band\<close>

text \<open>Every alpha is NaN or in the band.\<close>

lemma alphas_v1_NaN_or_inBand:
  "i < length ds \<Longrightarrow> alphas_v1 p ds ! i = NaN \<or> inBand (alphas_v1 p ds ! i)"
  by (simp add: alphas_v1_nth computeAlpha_v1_NaN_or_inBand)

lemma alphas_v2_NaN_or_inBand:
  "i < length ds \<Longrightarrow> alphas_v2 p ds ! i = NaN \<or> inBand (alphas_v2 p ds ! i)"
  by (simp add: alphas_v2_v1 alphas_v1_NaN_or_inBand)

lemma alphas_js_NaN_or_inBand:
  "i < length src \<Longrightarrow> alphas_js src ! i = NaN \<or> inBand (alphas_js src ! i)"
  by (simp add: alphas_js_nth computeAlpha_v1_NaN_or_inBand)

text \<open>
  The conversion \<open>Number(...) || 0\<close> of the components lets an infinite scale through,
  whether it is given as a number or as the string \<open>'Infinity'\<close>.
\<close>

lemma infinite_scale_is_kept:
  "scaleVal_v1 defaultProps_v1 (EObj [(''scale'', Num PInf)]) = PInf"
  "scaleVal_v1 defaultProps_v1 (EObj [(''scale'', Str ''Infinity'')]) = PInf"
  "scaleVal_v2 defaultProps_v2 (EObj [(''scale'', Num PInf)]) = PInf"
  "scaleVal_v2 defaultProps_v2 (EObj [(''scale'', Str ''Infinity'')]) = PInf"
  by (simp_all add: scaleVal_v1_def scaleVal_v2_def field_defs parse_defs)

text \<open>
  C1. Claimed: for every input sequence, every alpha that \<open>computeAlpha\<close> returns, and
  that is printed into the colour string, lies in \<open>[0.5, 0.9]\<close>, whatever the scales.
  The code does not keep this promise of its own documentation (\<open>@returns\<close>: an
  alpha between \<open>MIN_ALPHA\<close> and \<open>MAX_ALPHA\<close>) when a scale is \<open>Infinity\<close>: with the
  scales \<open>Infinity\<close> and \<open>1\<close>, the first record has \<open>lin = Infinity / Infinity = NaN\<close>, which
  passes through both clamps, so that its alpha is NaN and its colour is
  \<open>rgba(87, 129, 253, NaN)\<close>, in all three variants. (Every alpha is NaN or in the band:
  the lemmas above.)
\<close>

theorem alpha_is_NaN_at_infinite_scale:
  "alphas_js withInfinity = [NaN, Fin (1/2)]
   \<and> alphas_v1 defaultProps_v1 (map EObj withInfinity) = [NaN, Fin (1/2)]
   \<and> alphas_v2 defaultProps_v2 (map EObj withInfinity) = [NaN, Fin (1/2)]
   \<and> \<not> inBand (alphas_v1 defaultProps_v1 (map EObj withInfinity) ! 0)
   \<and> node_color (mapData_js withInfinity ! 0) = ''rgba(87, 129, 253, NaN)''
   \<and> color (item_itemStyle (mapData_v1 defaultProps_v1 (Some (map EObj withInfinity)) ! 0))
       = ''rgba(87, 129, 253, NaN)''
   \<and> color (item_itemStyle (mapData_v2 defaultProps_v2 (Some (map EObj withInfinity)) ! 0))
       = ''rgba(87, 129, 253, NaN)''"
proof -
  have len: "0 < length withInfinity" "0 < length (map EObj withInfinity)"
    by (simp_all add: withInfinity_def)
  show ?thesis
    using len
    by (simp add: mapData_js_nth mapData_v1_nth mapData_v2_nth withInfinity_alphas_js
        withInfinity_alphas_v1 withInfinity_alphas_v2 color_js_v1 color_v2_v1 color_v1_NaN)
qed

subsection \<open>C2: monotonicity\<close>

text \<open>
  \<open>mapData\<close> never passes a \<open>max\<close> below \<open>min\<close>: the two are \<open>Math.max\<close> and \<open>Math.min\<close> of
  the same scales.
\<close>

lemma max2_not_below: "\<not> jlt (max2 a b) a" "\<not> jlt (max2 a b) b"
  by (cases a; cases b; simp add: max2_def)+

lemma min2_not_above: "\<not> jlt a (min2 a b)" "\<not> jlt b (min2 a b)"
  by (cases a; cases b; simp add: min2_def)+

lemma jlt_max2: "jlt (max2 a b) x \<Longrightarrow> jlt b x"
  by (cases a; cases b; cases x; simp add: max2_def split: if_splits)

lemma jlt_min2: "jlt x (min2 a b) \<Longrightarrow> jlt x b"
  by (cases a; cases b; cases x; simp add: min2_def split: if_splits)

lemma Math_max_not_below: "x \<in> set xs \<Longrightarrow> \<not> jlt (Math_max xs) x"
  by (induction xs) (auto dest: jlt_max2 simp: max2_not_below)

lemma Math_min_not_above: "x \<in> set xs \<Longrightarrow> \<not> jlt x (Math_min xs)"
  by (induction xs) (auto dest: jlt_min2 simp: min2_not_above)

lemma Math_max_NaN: "NaN \<in> set xs \<Longrightarrow> Math_max xs = NaN"
  by (induction xs) (auto simp: max2_def)

lemma Math_max_not_below_Math_min:
  assumes "xs \<noteq> []"
  shows "\<not> jlt (Math_max xs) (Math_min xs)"
proof
  assume lt: "jlt (Math_max xs) (Math_min xs)"
  from assms obtain x where x: "x \<in> set xs" by (cases xs) auto
  have a: "\<not> jlt x (Math_min xs)" using x by (rule Math_min_not_above)
  have b: "\<not> jlt (Math_max xs) x" using x by (rule Math_max_not_below)
  have c: "x \<noteq> NaN" using lt Math_max_NaN x by fastforce
  show False using lt a b c
    by (cases "Math_max xs"; cases "Math_min xs"; cases x; simp)
qed

text \<open>
  Finite scales suffice for a NaN alpha: with the scales \<open>-1e308\<close>, \<open>0\<close> and \<open>1e308\<close> the
  range \<open>max - min\<close> overflows to \<open>Infinity\<close>, and so does \<open>scale - min\<close> for the largest.
\<close>

lemma alpha_is_NaN_at_finite_overflow:
  "alphas_js withHugeScales = [Fin (1/2), Fin (1/2), NaN]"
  "alphas_v1 defaultProps_v1 (map EObj withHugeScales) = [Fin (1/2), Fin (1/2), NaN]"
  "alphas_v2 defaultProps_v2 (map EObj withHugeScales) = [Fin (1/2), Fin (1/2), NaN]"
  by (simp_all add: alphas_eval field_defs withHugeScales_def computeAlpha_v1_def alpha_defs
      MIN_ALPHA_v1_def MAX_ALPHA_v1_def)

lemma withInfinity_scales:
  "map ToNumber (scales_js withInfinity) = [PInf, Fin 1]"
  "scales_v1 defaultProps_v1 (map EObj withInfinity) = [PInf, Fin 1]"
  "scales_v2 defaultProps_v2 (map EObj withInfinity) = [PInf, Fin 1]"
  by (simp_all add: alphas_eval field_defs withInfinity_def)

lemma withHugeScales_scales:
  "scales_js withHugeScales = [Num (Fin (- (10 ^ 308))), Num (Fin 0), Num (Fin (10 ^ 308))]"
  "scales_v1 defaultProps_v1 (map EObj withHugeScales) = [Fin (- (10 ^ 308)), Fin 0, Fin (10 ^ 308)]"
  "scales_v2 defaultProps_v2 (map EObj withHugeScales) = [Fin (- (10 ^ 308)), Fin 0, Fin (10 ^ 308)]"
  by (simp_all add: alphas_eval field_defs withHugeScales_def)

lemma computeAlpha_at_infinite_max:
  "computeAlpha_v1 (Fin 1) (Fin 1) PInf = Fin (1/2)"
  "computeAlpha_v1 PInf (Fin 1) PInf = NaN"
  by (simp_all add: computeAlpha_v1_def alpha_defs MIN_ALPHA_v1_def MAX_ALPHA_v1_def)

text \<open>
  C2. Claimed: \<open>computeAlpha\<close> is non-decreasing in its scale, so that of two records of
  one call the one with the smaller scale never has the larger alpha. The code breaks
  this where it returns NaN, by the defect of C1: at \<open>min = 1\<close>, \<open>max = Infinity\<close>, which
  is what \<open>mapData\<close> passes for the scales \<open>Infinity\<close> and \<open>1\<close>, the scale \<open>1\<close> gets \<open>0.5\<close> and
  the larger scale \<open>Infinity\<close> gets NaN, and \<open>0.5 <= NaN\<close> is false. So record B, with the
  smaller scale, does not have an alpha at most that of record A, in all three variants.
  The same happens at the finite scales \<open>-1e308\<close>, \<open>0\<close> and \<open>1e308\<close>, between the second
  record and the third.
\<close>

theorem larger_scale_gets_NaN_alpha:
  "jlt (Fin 1) PInf
   \<and> computeAlpha_js (Num (Fin 1)) (Fin 1) PInf = Fin (1/2)
   \<and> computeAlpha_js (Num PInf) (Fin 1) PInf = NaN
   \<and> computeAlpha_v1 (Fin 1) (Fin 1) PInf = Fin (1/2)
   \<and> computeAlpha_v1 PInf (Fin 1) PInf = NaN
   \<and> computeAlpha_v2 (Fin 1) (Fin 1) PInf = Fin (1/2)
   \<and> computeAlpha_v2 PInf (Fin 1) PInf = NaN
   \<and> \<not> jle (computeAlpha_js (Num (Fin 1)) (Fin 1) PInf) (computeAlpha_js (Num PInf) (Fin 1) PInf)
   \<and> \<not> jle (computeAlpha_v1 (Fin 1) (Fin 1) PInf) (computeAlpha_v1 PInf (Fin 1) PInf)
   \<and> \<not> jle (computeAlpha_v2 (Fin 1) (Fin 1) PInf) (computeAlpha_v2 PInf (Fin 1) PInf)
   \<and> jlt (ToNumber (scales_js withInfinity ! 1)) (ToNumber (scales_js withInfinity ! 0))
   \<and> \<not> jle (alphas_js withInfinity ! 1) (alphas_js withInfinity ! 0)
   \<and> jlt (scales_v1 defaultProps_v1 (map EObj withInfinity) ! 1)
          (scales_v1 defaultProps_v1 (map EObj withInfinity) ! 0)
   \<and> \<not> jle (alphas_v1 defaultProps_v1 (map EObj withInfinity) ! 1)
            (alphas_v1 defaultProps_v1 (map EObj withInfinity) ! 0)
   \<and> jlt (scales_v2 defaultProps_v2 (map EObj withInfinity) ! 1)
          (scales_v2 defaultProps_v2 (map EObj withInfinity) ! 0)
   \<and> \<not> jle (alphas_v2 defaultProps_v2 (map EObj withInfinity) ! 1)
            (alphas_v2 defaultProps_v2 (map EObj withInfinity) ! 0)
   \<and> jlt (ToNumber (scales_js withHugeScales ! 1)) (ToNumber (scales_js withHugeScales ! 2))
   \<and> \<not> jle (alphas_js withHugeScales ! 1) (alphas_js withHugeScales ! 2)
   \<and> jlt (scales_v1 defaultProps_v1 (map EObj withHugeScales) ! 1)
          (scales_v1 defaultProps_v1 (map EObj withHugeScales) ! 2)
   \<and> \<not> jle (alphas_v1 defaultProps_v1 (map EObj withHugeScales) ! 1)
            (alphas_v1 defaultProps_v1 (map EObj withHugeScales) ! 2)
   \<and> jlt (scales_v2 defaultProps_v2 (map EObj withHugeScales) ! 1)
          (scales_v2 defaultProps_v2 (map EObj withHugeScales) ! 2)
   \<and> \<not> jle (alphas_v2 defaultProps_v2 (map EObj withHugeScales) ! 1)
            (alphas_v2 defaultProps_v2 (map EObj withHugeScales) ! 2)"
proof -
  have s: "scales_js withInfinity = [Num PInf, Num (Fin 1)]"
    by (simp add: scales_js_def withInfinity_def getProp_def)
  have n: "\<not> jle (Fin (1/2)) NaN" by (simp add: jle_def jeq_def)
  show ?thesis
    by (simp add: computeAlpha_js_v1 computeAlpha_v2_v1 computeAlpha_at_infinite_max n s
        withInfinity_scales withInfinity_alphas_js withInfinity_alphas_v1
        withInfinity_alphas_v2 withHugeScales_scales alpha_is_NaN_at_finite_overflow)
qed

subsection \<open>C3: equal scales\<close>

lemma withoutScale_alphas_js: "alphas_js withoutScale = [NaN]"
  by (simp add: alphas_eval field_defs withoutScale_def computeAlpha_v1_def alpha_defs
      MIN_ALPHA_v1_def MAX_ALPHA_v1_def)

lemma scaleVal_v1_jeq: "jeq (scaleVal_v1 p d) (scaleVal_v1 p e) = (scaleVal_v1 p d = scaleVal_v1 p e)"
  by (simp add: jeq_def scaleVal_v1_def)

lemma equal_scales_v1:
  assumes ne: "ds \<noteq> []"
    and eq: "\<forall>d\<in>set ds. \<forall>e\<in>set ds. scaleVal_v1 p d = scaleVal_v1 p e"
  shows "(\<forall>a\<in>set (alphas_v1 p ds). a = Fin (9/10))
      \<and> (\<forall>it\<in>set (mapData_v1 p (Some ds)).
            color (item_itemStyle it) = ''rgba(87, 129, 253, 0.900)'')"
proof -
  let ?xs = "scales_v1 p ds"
  have xs1: "?xs \<noteq> []" using ne by (simp add: scales_v1_def)
  have xs2: "\<forall>x\<in>set ?xs. \<forall>y\<in>set ?xs. jeq x y"
  proof (intro ballI)
    fix x y
    assume "x \<in> set ?xs" and "y \<in> set ?xs"
    then obtain d e where de: "d \<in> set ds" "e \<in> set ds"
      and xy: "x = scaleVal_v1 p d" "y = scaleVal_v1 p e"
      unfolding scales_v1_def by auto
    from eq de have "scaleVal_v1 p d = scaleVal_v1 p e" by blast
    then show "jeq x y" unfolding xy by (simp only: scaleVal_v1_jeq)
  qed
  have al: "alphas_v1 p ds ! i = Fin (9/10)" if "i < length ds" for i
  proof -
    from that have "?xs ! i \<in> set ?xs" by (simp add: scales_v1_def)
    from equal_scales_max_alpha[OF xs1 xs2 this] that show ?thesis
      by (simp add: alphas_v1_nth)
  qed
  have len: "length (alphas_v1 p ds) = length ds" by (simp add: alphas_v1_def)
  show ?thesis
    unfolding all_set_conv_all_nth len length_mapData_v1
    by (simp add: al mapData_v1_nth color_v1_max)
qed

lemma equal_scales_js:
  assumes ne: "src \<noteq> []"
    and eq: "\<forall>d\<in>set src. \<forall>e\<in>set src.
                jeq (ToNumber (getProp d ''scale'')) (ToNumber (getProp e ''scale''))"
  shows "(\<forall>a\<in>set (alphas_js src). a = Fin (9/10))
      \<and> (\<forall>n\<in>set (mapData_js src). node_color n = ''rgba(87, 129, 253, 0.900)'')"
proof -
  let ?xs = "map ToNumber (scales_js src)"
  have xs1: "?xs \<noteq> []" using ne by (simp add: scales_js_def)
  have xs2: "\<forall>x\<in>set ?xs. \<forall>y\<in>set ?xs. jeq x y"
    using eq by (simp add: scales_js_def)
  have al: "alphas_js src ! i = Fin (9/10)" if "i < length src" for i
  proof -
    from that have "?xs ! i \<in> set ?xs" by (simp add: scales_js_def)
    from equal_scales_max_alpha[OF xs1 xs2 this] that show ?thesis
      by (simp add: alphas_js_nth)
  qed
  have len: "length (alphas_js src) = length src" by (simp add: alphas_js_def)
  show ?thesis
    unfolding all_set_conv_all_nth len length_mapData_js
    by (simp add: al mapData_js_nth color_js_v1 color_v1_max)
qed

lemma all_equal_replicate: "\<forall>x\<in>set xs. x = c \<Longrightarrow> xs = replicate (length xs) c"
  by (induction xs) simp_all

text \<open>
  Claimed: whenever all extracted scales are equal, in particular for every single record,
  every alpha is \<open>0.9\<close>. The standalone script does not convert the scale: a single
  record without a scale field has \<open>min = max = NaN\<close>, \<open>max === min\<close> is false, and its
  alpha is NaN.
\<close>

theorem standalone_single_record_without_scale_gets_NaN:
  "length withoutScale = 1
   \<and> alphas_js withoutScale = [NaN]
   \<and> alphas_js withoutScale ! 0 \<noteq> Fin (9/10)
   \<and> node_color (mapData_js withoutScale ! 0) = ''rgba(87, 129, 253, NaN)''"
proof -
  have "0 < length withoutScale" by (simp add: withoutScale_def)
  then show ?thesis
    by (simp add: mapData_js_nth withoutScale_alphas_js color_js_v1 color_v1_NaN)
      (simp add: withoutScale_def)
qed

text \<open>
  C3, as the code has it. In both components, where every scale is converted by
  \<open>Number(...) || 0\<close>: if the input is not empty and all converted scales are equal (as
  for every single record), every alpha is \<open>0.9\<close> and every colour ends in \<open>0.900\<close>. In
  the standalone script the same holds when the scales, as numbers, are equal under
  \<open>===\<close>, which excludes NaN. In these cases \<open>computeAlpha\<close> returns before it divides.
\<close>

theorem equal_scales_give_max_alpha:
  "(ds \<noteq> [] \<and> (\<forall>d\<in>set ds. \<forall>e\<in>set ds. scaleVal_v1 p1 d = scaleVal_v1 p1 e) \<longrightarrow>
      (\<forall>a\<in>set (alphas_v1 p1 ds). a = Fin (9/10))
      \<and> (\<forall>it\<in>set (mapData_v1 p1 (Some ds)).
            color (item_itemStyle it) = ''rgba(87, 129, 253, 0.900)''))
   \<and> (ds \<noteq> [] \<and> (\<forall>d\<in>set ds. \<forall>e\<in>set ds. scaleVal_v2 p2 d = scaleVal_v2 p2 e) \<longrightarrow>
      (\<forall>a\<in>set (alphas_v2 p2 ds). a = Fin (9/10))
      \<and> (\<forall>it\<in>set (mapData_v2 p2 (Some ds)).
            color (item_itemStyle it) = ''rgba(87, 129, 253, 0.900)''))
   \<and> (src \<noteq> [] \<and> (\<forall>d\<in>set src. \<forall>e\<in>set src.
                      jeq (ToNumber (getProp d ''scale'')) (ToNumber (getProp e ''scale''))) \<longrightarrow>
      (\<forall>a\<in>set (alphas_js src). a = Fin (9/10))
      \<and> (\<forall>n\<in>set (mapData_js src). node_color n = ''rgba(87, 129, 253, 0.900)''))"
proof (intro conjI impI)
  assume "ds \<noteq> [] \<and> (\<forall>d\<in>set ds. \<forall>e\<in>set ds. scaleVal_v1 p1 d = scaleVal_v1 p1 e)"
  then have a: "ds \<noteq> []" "\<forall>d\<in>set ds. \<forall>e\<in>set ds. scaleVal_v1 p1 d = scaleVal_v1 p1 e"
    by blast+
  from equal_scales_v1[OF a] show "\<forall>a\<in>set (alphas_v1 p1 ds). a = Fin (9/10)"
    and "\<forall>it\<in>set (mapData_v1 p1 (Some ds)).
            color (item_itemStyle it) = ''rgba(87, 129, 253, 0.900)''"
    by simp_all
next
  assume "ds \<noteq> [] \<and> (\<forall>d\<in>set ds. \<forall>e\<in>set ds. scaleVal_v2 p2 d = scaleVal_v2 p2 e)"
  then have a: "ds \<noteq> []"
    "\<forall>d\<in>set ds. \<forall>e\<in>set ds.
       scaleVal_v1 (props.truncate p2) d = scaleVal_v1 (props.truncate p2) e"
    unfolding scaleVal_v2_v1 by blast+
  from equal_scales_v1[OF a] show "\<forall>a\<in>set (alphas_v2 p2 ds). a = Fin (9/10)"
    and "\<forall>it\<in>set (mapData_v2 p2 (Some ds)).
            color (item_itemStyle it) = ''rgba(87, 129, 253, 0.900)''"
    by (simp_all add: alphas_v2_v1 mapData_v2_v1)
next
  assume "src \<noteq> [] \<and> (\<forall>d\<in>set src. \<forall>e\<in>set src.
                      jeq (ToNumber (getProp d ''scale'')) (ToNumber (getProp e ''scale'')))"
  then have a: "src \<noteq> []" "\<forall>d\<in>set src. \<forall>e\<in>set src.
                      jeq (ToNumber (getProp d ''scale'')) (ToNumber (getProp e ''scale''))"
    by simp_all
  from equal_scales_js[OF a] show "\<forall>a\<in>set (alphas_js src). a = Fin (9/10)"
    and "\<forall>n\<in>set (mapData_js src). node_color n = ''rgba(87, 129, 253, 0.900)''"
    by simp_all
qed

text \<open>
  The theorem at two records of scale \<open>10\<close>, and at a single record without a scale field
  (which the components convert to \<open>0\<close>).
\<close>

theorem equal_scales_give_max_alpha_witness:
  "map EObj sameScale \<noteq> [] \<and> map EObj withoutScale \<noteq> []
   \<and> alphas_v1 defaultProps_v1 (map EObj sameScale) = [Fin (9/10), Fin (9/10)]
   \<and> alphas_v1 defaultProps_v1 (map EObj withoutScale) = [Fin (9/10)]
   \<and> alphas_v2 defaultProps_v2 (map EObj sameScale) = [Fin (9/10), Fin (9/10)]
   \<and> alphas_v2 defaultProps_v2 (map EObj withoutScale) = [Fin (9/10)]
   \<and> alphas_js sameScale = [Fin (9/10), Fin (9/10)]"
proof -
  have h1: "map EObj sameScale \<noteq> [] \<and> (\<forall>d\<in>set (map EObj sameScale). \<forall>e\<in>set (map EObj sameScale).
       scaleVal_v1 defaultProps_v1 d = scaleVal_v1 defaultProps_v1 e)"
    by (simp add: sameScale_def scaleVal_v1_def field_defs)
  have h2: "map EObj sameScale \<noteq> [] \<and> (\<forall>d\<in>set (map EObj sameScale). \<forall>e\<in>set (map EObj sameScale).
       scaleVal_v2 defaultProps_v2 d = scaleVal_v2 defaultProps_v2 e)"
    by (simp add: sameScale_def scaleVal_v2_def field_defs)
  have h3: "sameScale \<noteq> [] \<and> (\<forall>d\<in>set sameScale. \<forall>e\<in>set sameScale.
                      jeq (ToNumber (getProp d ''scale'')) (ToNumber (getProp e ''scale'')))"
    by (simp add: sameScale_def jeq_def getProp_def)
  have k1: "map EObj withoutScale \<noteq> [] \<and> (\<forall>d\<in>set (map EObj withoutScale). \<forall>e\<in>set (map EObj withoutScale).
       scaleVal_v1 defaultProps_v1 d = scaleVal_v1 defaultProps_v1 e)"
    by (simp add: withoutScale_def)
  have k2: "map EObj withoutScale \<noteq> [] \<and> (\<forall>d\<in>set (map EObj withoutScale). \<forall>e\<in>set (map EObj withoutScale).
       scaleVal_v2 defaultProps_v2 d = scaleVal_v2 defaultProps_v2 e)"
    by (simp add: withoutScale_def)
  have len: "length (alphas_v1 defaultProps_v1 (map EObj sameScale)) = Suc (Suc 0)"
    "length (alphas_v2 defaultProps_v2 (map EObj sameScale)) = Suc (Suc 0)"
    "length (alphas_js sameScale) = Suc (Suc 0)"
    "length (alphas_v1 defaultProps_v1 (map EObj withoutScale)) = Suc 0"
    "length (alphas_v2 defaultProps_v2 (map EObj withoutScale)) = Suc 0"
    by (simp_all add: alphas_v1_def alphas_v2_def alphas_js_def sameScale_def withoutScale_def)
  note t1 = equal_scales_give_max_alpha [where ds = "map EObj sameScale"
      and ?p1.0 = defaultProps_v1 and ?p2.0 = defaultProps_v2 and src = sameScale]
  note t2 = equal_scales_give_max_alpha [where ds = "map EObj withoutScale"
      and ?p1.0 = defaultProps_v1 and ?p2.0 = defaultProps_v2 and src = sameScale]
  from t1 h1 h2 h3 have
    "\<forall>a\<in>set (alphas_v1 defaultProps_v1 (map EObj sameScale)). a = Fin (9/10)"
    "\<forall>a\<in>set (alphas_v2 defaultProps_v2 (map EObj sameScale)). a = Fin (9/10)"
    "\<forall>a\<in>set (alphas_js sameScale). a = Fin (9/10)"
    by blast+
  from this[THEN all_equal_replicate] have a:
    "alphas_v1 defaultProps_v1 (map EObj sameScale) = [Fin (9/10), Fin (9/10)]"
    "alphas_v2 defaultProps_v2 (map EObj sameScale) = [Fin (9/10), Fin (9/10)]"
    "alphas_js sameScale = [Fin (9/10), Fin (9/10)]"
    unfolding len by simp_all
  from t2 k1 k2 have
    "\<forall>a\<in>set (alphas_v1 defaultProps_v1 (map EObj withoutScale)). a = Fin (9/10)"
    "\<forall>a\<in>set (alphas_v2 defaultProps_v2 (map EObj withoutScale)). a = Fin (9/10)"
    by blast+
  from this[THEN all_equal_replicate] have b:
    "alphas_v1 defaultProps_v1 (map EObj withoutScale) = [Fin (9/10)]"
    "alphas_v2 defaultProps_v2 (map EObj withoutScale) = [Fin (9/10)]"
    unfolding len by simp_all
  from a b h1 k1 show ?thesis by blast
qed

subsection \<open>C4: malformed scales\<close>

lemma malformedScale_orZero: "malformedScale v \<Longrightarrow> orZero (ToNumber v) = Fin 0"
  by (cases v) (simp_all add: orZero_def)

lemma abc_not_numeric: "StringToNumber ''abc'' = NaN"
  by (simp add: parse_defs)

text \<open>
  Claimed: a record whose scale is missing, \<open>null\<close>, \<open>undefined\<close> or a non-numeric string
  has its scale converted to \<open>0\<close>, so that its \<open>value\<close> and \<open>scale\<close> are \<open>0\<close>. The
  standalone script has no such conversion: it copies \<open>d.scale\<close> as it is, and a record
  without a scale field comes out with \<open>value\<close> and \<open>scale\<close> \<open>undefined\<close>.
\<close>

theorem standalone_passes_missing_scale_through:
  "mapData_js withoutScale =
     [\<lparr> node_name = Undefined, node_value = Undefined, node_fundname = Undefined,
        node_scale = Undefined, node_color = ''rgba(87, 129, 253, NaN)'' \<rparr>]
   \<and> node_value (mapData_js withoutScale ! 0) \<noteq> Num (Fin 0)"
proof -
  have l: "length (mapData_js withoutScale) = Suc 0" "0 < length withoutScale"
    by (simp_all add: length_mapData_js withoutScale_def)
  have n: "mapData_js withoutScale ! 0 =
     \<lparr> node_name = Undefined, node_value = Undefined, node_fundname = Undefined,
        node_scale = Undefined, node_color = ''rgba(87, 129, 253, NaN)'' \<rparr>"
    using l(2)
    by (simp add: mapData_js_nth withoutScale_alphas_js color_js_v1 color_v1_NaN)
      (simp add: withoutScale_def getProp_def)
  from l(1) n have "mapData_js withoutScale = [mapData_js withoutScale ! 0]"
    by (cases "mapData_js withoutScale") simp_all
  with n show ?thesis by simp
qed

text \<open>
  C4, as the code has it. In both components a record whose scale is missing, \<open>null\<close>,
  \<open>undefined\<close> or a non-numeric string is kept in its place, with \<open>value\<close> and \<open>scale\<close>
  \<open>0\<close> and the alpha of the scale \<open>0\<close>. In the standalone script every record is kept as
  well, with \<open>value\<close> and \<open>scale\<close> equal to the field as it was read. No variant raises:
  on the values modelled none of the operations used can throw, so the three \<open>mapData\<close>
  are total functions without an error result.
\<close>

theorem malformed_scale_handling:
  "(i < length ds \<and> malformedScale (optProp (ds ! i) (orString (scaleKey p1) ''scale'')) \<longrightarrow>
      length (mapData_v1 p1 (Some ds)) = length ds
      \<and> item_raw (mapData_v1 p1 (Some ds) ! i) = ds ! i
      \<and> item_value (mapData_v1 p1 (Some ds) ! i) = Fin 0
      \<and> item_scale (mapData_v1 p1 (Some ds) ! i) = Fin 0
      \<and> alphas_v1 p1 ds ! i =
          computeAlpha_v1 (Fin 0) (Math_min (scales_v1 p1 ds)) (Math_max (scales_v1 p1 ds)))
   \<and> (i < length ds \<and> malformedScale (optProp (ds ! i) (orString (scaleKey p2) ''scale'')) \<longrightarrow>
      length (mapData_v2 p2 (Some ds)) = length ds
      \<and> item_raw (mapData_v2 p2 (Some ds) ! i) = ds ! i
      \<and> item_value (mapData_v2 p2 (Some ds) ! i) = Fin 0
      \<and> item_scale (mapData_v2 p2 (Some ds) ! i) = Fin 0
      \<and> alphas_v2 p2 ds ! i =
          computeAlpha_v2 (Fin 0) (Math_min (scales_v2 p2 ds)) (Math_max (scales_v2 p2 ds)))
   \<and> (k < length src \<longrightarrow>
      length (mapData_js src) = length src
      \<and> node_value (mapData_js src ! k) = getProp (src ! k) ''scale''
      \<and> node_scale (mapData_js src ! k) = getProp (src ! k) ''scale''
      \<and> alphas_js src ! k = computeAlpha_js (getProp (src ! k) ''scale'') (min_js src) (max_js src))"
proof (intro conjI impI)
  assume a: "i < length ds \<and> malformedScale (optProp (ds ! i) (orString (scaleKey p1) ''scale''))"
  then have z: "scaleVal_v1 p1 (ds ! i) = Fin 0"
    by (simp add: scaleVal_v1_def malformedScale_orZero)
  show "length (mapData_v1 p1 (Some ds)) = length ds" by (rule length_mapData_v1)
  from a show "item_raw (mapData_v1 p1 (Some ds) ! i) = ds ! i" by (simp add: mapData_v1_nth)
  from a z show "item_value (mapData_v1 p1 (Some ds) ! i) = Fin 0" by (simp add: mapData_v1_nth)
  from a z show "item_scale (mapData_v1 p1 (Some ds) ! i) = Fin 0" by (simp add: mapData_v1_nth)
  from a z show "alphas_v1 p1 ds ! i =
          computeAlpha_v1 (Fin 0) (Math_min (scales_v1 p1 ds)) (Math_max (scales_v1 p1 ds))"
    by (simp add: alphas_v1_def)
next
  assume a: "i < length ds \<and> malformedScale (optProp (ds ! i) (orString (scaleKey p2) ''scale''))"
  then have z: "scaleVal_v2 p2 (ds ! i) = Fin 0"
    by (simp add: scaleVal_v2_def malformedScale_orZero)
  show "length (mapData_v2 p2 (Some ds)) = length ds" by (rule length_mapData_v2)
  from a show "item_raw (mapData_v2 p2 (Some ds) ! i) = ds ! i" by (simp add: mapData_v2_nth)
  from a z show "item_value (mapData_v2 p2 (Some ds) ! i) = Fin 0" by (simp add: mapData_v2_nth)
  from a z show "item_scale (mapData_v2 p2 (Some ds) ! i) = Fin 0" by (simp add: mapData_v2_nth)
  from a z show "alphas_v2 p2 ds ! i =
          computeAlpha_v2 (Fin 0) (Math_min (scales_v2 p2 ds)) (Math_max (scales_v2 p2 ds))"
    by (simp add: alphas_v2_def)
next
  assume a: "k < length src"
  show "length (mapData_js src) = length src" by (rule length_mapData_js)
  from a show "node_value (mapData_js src ! k) = getProp (src ! k) ''scale''"
    by (simp add: mapData_js_nth)
  from a show "node_scale (mapData_js src ! k) = getProp (src ! k) ''scale''"
    by (simp add: mapData_js_nth)
  from a show "alphas_js src ! k = computeAlpha_js (getProp (src ! k) ''scale'') (min_js src) (max_js src)"
    by (simp add: alphas_js_def)
qed

text \<open>
  The theorem at the records without a scale field and with the scale \<open>'abc'\<close>.
\<close>

theorem malformed_scale_handling_witness:
  "malformedScale (optProp (malformedInput ! 0) ''scale'')
   \<and> malformedScale (optProp (malformedInput ! 3) ''scale'')
   \<and> length (mapData_v1 defaultProps_v1 (Some malformedInput)) = 5
   \<and> item_raw (mapData_v1 defaultProps_v1 (Some malformedInput) ! 3) = malformedInput ! 3
   \<and> item_value (mapData_v1 defaultProps_v1 (Some malformedInput) ! 3) = Fin 0
   \<and> item_scale (mapData_v1 defaultProps_v1 (Some malformedInput) ! 3) = Fin 0
   \<and> item_value (mapData_v2 defaultProps_v2 (Some malformedInput) ! 0) = Fin 0
   \<and> item_scale (mapData_v2 defaultProps_v2 (Some malformedInput) ! 0) = Fin 0
   \<and> node_value (mapData_js withoutScale ! 0) = Undefined"
proof -
  have m: "malformedScale (optProp (malformedInput ! 0) ''scale'')"
    "malformedScale (optProp (malformedInput ! 3) ''scale'')"
    by (simp_all add: malformedInput_def optProp_def getProp_def abc_not_numeric)
  have l: "length malformedInput = 5" "length withoutScale = 1"
    by (simp_all add: malformedInput_def withoutScale_def)
  have k: "orString (scaleKey defaultProps_v1) ''scale'' = ''scale''"
    "orString (scaleKey defaultProps_v2) ''scale'' = ''scale''"
    by (simp_all add: field_defs)
  have g: "getProp (withoutScale ! 0) ''scale'' = Undefined"
    by (simp add: withoutScale_def getProp_def)
  note t1 = malformed_scale_handling [where ds = malformedInput and i = 3
      and ?p1.0 = defaultProps_v1 and ?p2.0 = defaultProps_v2 and src = withoutScale and k = 0]
  note t2 = malformed_scale_handling [where ds = malformedInput and i = 0
      and ?p1.0 = defaultProps_v1 and ?p2.0 = defaultProps_v2 and src = withoutScale and k = 0]
  from t1 t2 m show ?thesis by (simp add: l k g)
qed

subsection \<open>C5: length and order\<close>

text \<open>
  C5. For every input sequence, each of the three \<open>mapData\<close> returns as many records as
  it was given, and its \<open>i\<close>-th record is built from the \<open>i\<close>-th input record: the name
  and the scale are read from that record (in the components the record itself is kept
  as \<open>raw\<close>), and the colour is printed from that record's alpha.
\<close>

theorem mapData_keeps_length_and_order:
  "length (mapData_js src) = length src
   \<and> length (mapData_v1 p1 (Some ds)) = length ds
   \<and> length (mapData_v2 p2 (Some ds)) = length ds
   \<and> (k < length src \<longrightarrow>
        mapData_js src ! k =
          \<lparr> node_name = getProp (src ! k) ''fundname'',
            node_value = getProp (src ! k) ''scale'',
            node_fundname = getProp (src ! k) ''fundname'',
            node_scale = getProp (src ! k) ''scale'',
            node_color = color_js (alphas_js src ! k) \<rparr>)
   \<and> (i < length ds \<longrightarrow>
        mapData_v1 p1 (Some ds) ! i =
          \<lparr> item_name = nullish (optProp (ds ! i) (orString (fundNameKey p1) ''fund_name'')) (Str ''''),
            item_value = scaleVal_v1 p1 (ds ! i),
            item_fund_name = nullish (optProp (ds ! i) (orString (fundNameKey p1) ''fund_name'')) (Str ''''),
            item_scale = scaleVal_v1 p1 (ds ! i),
            item_raw = ds ! i,
            item_itemStyle = \<lparr> color = color_v1 (alphas_v1 p1 ds ! i) \<rparr>,
            item_label = \<lparr> label_show = True, label_fontSize = fontSize p1,
                           label_overflow = ''truncate'' \<rparr> \<rparr>)
   \<and> (i < length ds \<longrightarrow>
        mapData_v2 p2 (Some ds) ! i =
          \<lparr> item_name = nullish (optProp (ds ! i) (orString (fundNameKey p2) ''fund_name'')) (Str ''''),
            item_value = scaleVal_v2 p2 (ds ! i),
            item_fund_name = nullish (optProp (ds ! i) (orString (fundNameKey p2) ''fund_name'')) (Str ''''),
            item_scale = scaleVal_v2 p2 (ds ! i),
            item_raw = ds ! i,
            item_itemStyle = \<lparr> color = color_v2 (alphas_v2 p2 ds ! i) \<rparr>,
            item_label = \<lparr> label_show = True, label_fontSize = fontSize p2,
                           label_overflow = ''truncate'' \<rparr> \<rparr>)"
  by (intro conjI impI length_mapData_js length_mapData_v1 length_mapData_v2
      mapData_js_nth mapData_v1_nth mapData_v2_nth)

text \<open>The theorem at the third record of the scenario.\<close>

theorem mapData_keeps_length_and_order_witness:
  "length (mapData_js scenario) = 4
   \<and> length (mapData_v1 defaultProps_v1 (Some (map EObj scenario))) = 4
   \<and> length (mapData_v2 defaultProps_v2 (Some (map EObj scenario))) = 4
   \<and> node_value (mapData_js scenario ! 2) = Num (Fin 100)
   \<and> item_raw (mapData_v1 defaultProps_v1 (Some (map EObj scenario)) ! 2)
       = EObj [(''name'', Str ''C''), (''scale'', Num (Fin 100))]
   \<and> item_value (mapData_v1 defaultProps_v1 (Some (map EObj scenario)) ! 2) = Fin 100
   \<and> item_name (mapData_v2 defaultProps_v2 (Some (map EObj scenario)) ! 2) = Str ''C''
   \<and> item_value (mapData_v2 defaultProps_v2 (Some (map EObj scenario)) ! 2) = Fin 100"
proof -
  have l: "length scenario = 4" by (simp add: scenario_def)
  have e: "scenario ! 2 = [(''name'', Str ''C''), (''scale'', Num (Fin 100))]"
    by (simp add: scenario_def)
  from mapData_keeps_length_and_order [where src = scenario and ds = "map EObj scenario"
      and ?p1.0 = defaultProps_v1 and ?p2.0 = defaultProps_v2 and i = 2 and k = 2]
  show ?thesis
    by (simp add: l e scaleVal_v1_def scaleVal_v2_def field_defs)
qed

subsection \<open>C6: empty input\<close>

text \<open>
  C6. On the empty sequence each \<open>mapData\<close> returns the empty sequence. The function
  passed to \<open>map\<close> is never called, so no alpha is computed and \<open>computeAlpha\<close> never
  divides. In the standalone script \<open>min\<close> and \<open>max\<close> are then \<open>Math.min()\<close> and
  \<open>Math.max()\<close> of no argument, \<open>Infinity\<close> and \<open>-Infinity\<close>; the components return before
  they compute them, also when \<open>chartData\<close> is absent.
\<close>

theorem mapData_of_empty_input:
  "mapData_js [] = [] \<and> alphas_js [] = []
   \<and> min_js [] = PInf \<and> max_js [] = NInf
   \<and> mapData_v1 p1 (Some []) = [] \<and> mapData_v1 p1 None = [] \<and> alphas_v1 p1 [] = []
   \<and> mapData_v2 p2 (Some []) = [] \<and> mapData_v2 p2 None = [] \<and> alphas_v2 p2 [] = []"
  by (simp add: mapData_js_def alphas_js_def min_js_def max_js_def scales_js_def
      mapData_v1_def alphas_v1_def mapData_v2_def alphas_v2_def)

subsection \<open>C7: the scenario\<close>

lemma color_v1_scenario:
  "color_v1 (Fin (4/5)) = ''rgba(87, 129, 253, 0.800)''"
  "color_v1 (Fin (3/5)) = ''rgba(87, 129, 253, 0.600)''"
  by (simp_all add: color_defs)

text \<open>
  C7. For the four records A, B, C, D with the scales 200, 150, 100, 50, the alphas are
  \<open>0.9\<close>, \<open>0.8\<close>, \<open>0.6\<close> and \<open>0.5\<close> in each of the three variants: strictly increasing with
  the scale, exactly \<open>0.5\<close> for D, the smallest, and exactly \<open>0.9\<close> for A, the largest. The
  colours carry these alphas with three decimals.
\<close>

theorem scenario_alphas:
  "alphas_js scenario = [Fin 0.9, Fin 0.8, Fin 0.6, Fin 0.5]
   \<and> alphas_v1 defaultProps_v1 (map EObj scenario) = [Fin 0.9, Fin 0.8, Fin 0.6, Fin 0.5]
   \<and> alphas_v2 defaultProps_v2 (map EObj scenario) = [Fin 0.9, Fin 0.8, Fin 0.6, Fin 0.5]
   \<and> jlt (alphas_js scenario ! 3) (alphas_js scenario ! 2)
   \<and> jlt (alphas_js scenario ! 2) (alphas_js scenario ! 1)
   \<and> jlt (alphas_js scenario ! 1) (alphas_js scenario ! 0)
   \<and> jlt (alphas_v1 defaultProps_v1 (map EObj scenario) ! 3)
          (alphas_v1 defaultProps_v1 (map EObj scenario) ! 2)
   \<and> jlt (alphas_v1 defaultProps_v1 (map EObj scenario) ! 2)
          (alphas_v1 defaultProps_v1 (map EObj scenario) ! 1)
   \<and> jlt (alphas_v1 defaultProps_v1 (map EObj scenario) ! 1)
          (alphas_v1 defaultProps_v1 (map EObj scenario) ! 0)
   \<and> jlt (alphas_v2 defaultProps_v2 (map EObj scenario) ! 3)
          (alphas_v2 defaultProps_v2 (map EObj scenario) ! 2)
   \<and> jlt (alphas_v2 defaultProps_v2 (map EObj scenario) ! 2)
          (alphas_v2 defaultProps_v2 (map EObj scenario) ! 1)
   \<and> jlt (alphas_v2 defaultProps_v2 (map EObj scenario) ! 1)
          (alphas_v2 defaultProps_v2 (map EObj scenario) ! 0)
   \<and> map node_color (mapData_js scenario)
       = [''rgba(87, 129, 253, 0.900)'', ''rgba(87, 129, 253, 0.800)'',
          ''rgba(87, 129, 253, 0.600)'', ''rgba(87, 129, 253, 0.500)'']
   \<and> map (\<lambda>it. color (item_itemStyle it)) (mapData_v1 defaultProps_v1 (Some (map EObj scenario)))
       = [''rgba(87, 129, 253, 0.900)'', ''rgba(87, 129, 253, 0.800)'',
          ''rgba(87, 129, 253, 0.600)'', ''rgba(87, 129, 253, 0.500)'']
   \<and> map (\<lambda>it. color (item_itemStyle it)) (mapData_v2 defaultProps_v2 (Some (map EObj scenario)))
       = [''rgba(87, 129, 253, 0.900)'', ''rgba(87, 129, 253, 0.800)'',
          ''rgba(87, 129, 253, 0.600)'', ''rgba(87, 129, 253, 0.500)'']
   \<and> map item_name (mapData_v2 defaultProps_v2 (Some (map EObj scenario)))
       = [Str ''A'', Str ''B'', Str ''C'', Str ''D'']"
proof -
  have l: "length scenario = 4" by (simp add: scenario_def)
  have js: "map node_color (mapData_js scenario) = map color_js (alphas_js scenario)"
    by (rule nth_equalityI) (simp_all add: length_mapData_js alphas_js_def mapData_js_nth)
  have v1: "map (\<lambda>it. color (item_itemStyle it)) (mapData_v1 p (Some ds)) = map color_v1 (alphas_v1 p ds)"
    for p ds
    by (rule nth_equalityI) (simp_all add: length_mapData_v1 alphas_v1_def mapData_v1_nth)
  have v2: "map (\<lambda>it. color (item_itemStyle it)) (mapData_v2 p (Some ds)) = map color_v2 (alphas_v2 p ds)"
    for p ds
    by (rule nth_equalityI) (simp_all add: length_mapData_v2 alphas_v2_def mapData_v2_nth)
  have nm: "map item_name (mapData_v2 p (Some ds))
      = map (\<lambda>d. nullish (optProp d (orString (fundNameKey p) ''fund_name'')) (Str '''')) ds"
    for p ds
    by (rule nth_equalityI) (simp_all add: length_mapData_v2 mapData_v2_nth)
  have names: "map (\<lambda>d. nullish (optProp d (orString (fundNameKey defaultProps_v2) ''fund_name'')) (Str ''''))
      (map EObj scenario) = [Str ''A'', Str ''B'', Str ''C'', Str ''D'']"
    by (simp add: scenario_def field_defs)
  show ?thesis
    unfolding js v1 v2 nm names scenario_alphas_js scenario_alphas_v1 scenario_alphas_v2
    by (simp add: color_js_v1 color_v2_v1 color_v1_max color_v1_half color_v1_scenario)
qed

subsection \<open>C8: the format option\<close>

text \<open>
  C8. In the second component \<open>mapData\<close> does not read \<open>props.format\<close>: for any input
  and any two values of the option it returns the same records, with the same values,
  alphas and colours. The option is read by \<open>formatScale\<close> only, which the tooltip
  calls at display time on a record's scale and which dispatches on it.
\<close>

theorem mapData_ignores_format:
  "mapData_v2 (p\<lparr>format := f\<rparr>) src = mapData_v2 (p\<lparr>format := g\<rparr>) src
   \<and> alphas_v2 (p\<lparr>format := f\<rparr>) ds = alphas_v2 (p\<lparr>format := g\<rparr>) ds
   \<and> formatScale fs (p\<lparr>format := ''''\<rparr>) (Num n) = Num n
   \<and> formatScale fs (p\<lparr>format := ''large''\<rparr>) (Num n) = formatBig fs (Num n)
   \<and> formatScale fs (p\<lparr>format := ''percent''\<rparr>) (Num n) = digitToPercent fs (Num n)
   \<and> formatScale fs (p\<lparr>format := ''currency''\<rparr>) (Num n) = formatCurrency fs (Num n)"
  by (simp add: mapData_v2_v1 alphas_v2_v1 props.truncate_def formatScale_def)

subsection \<open>C9: the three \<open>computeAlpha\<close>\<close>

text \<open>
  C9. The three \<open>computeAlpha\<close>, of the standalone script and of the two components,
  return the same alpha for every triple of numbers \<open>scale\<close>, \<open>min\<close>, \<open>max\<close>.
\<close>

theorem computeAlpha_variants_agree:
  "computeAlpha_js (Num scale) mn mx = computeAlpha_v1 scale mn mx
   \<and> computeAlpha_v1 scale mn mx = computeAlpha_v2 scale mn mx"
  by (simp add: computeAlpha_js_v1 computeAlpha_v2_v1)

subsection \<open>C10: numeric strings\<close>

text \<open>\<open>Number\<close> reads back the decimal digits of every natural number.\<close>

lemma digit_nth: "k < 10 \<Longrightarrow> isDigitChar (''0123456789'' ! k)"
  unfolding isDigitChar_def by (rule nth_mem) simp

lemma digitIn_nth: "k < 10 \<Longrightarrow> digitIn 10 (''0123456789'' ! k) = Some k"
proof -
  assume "k < 10"
  then have "k \<in> {0, 1, 2, 3, 4, 5, 6, 7, 8, 9}" by auto
  then show ?thesis
    by (auto simp add: digitIn_def digitValue_def)
qed

lemma showNat_digits: "list_all isDigitChar (showNat n)"
proof (induction n rule: showNat.induct)
  case (1 n)
  show ?case
  proof (cases "n < 10")
    case True
    then show ?thesis by (simp add: showNat_digit digit_nth)
  next
    case False
    then have "list_all isDigitChar (showNat (n div 10))" using 1 by simp
    moreover have "isDigitChar (''0123456789'' ! (n mod 10))" by (rule digit_nth) simp
    ultimately show ?thesis using False by (simp add: showNat_more)
  qed
qed

lemma showNat_nonempty: "showNat n \<noteq> []"
  by (cases "n < 10") (simp_all add: showNat_digit showNat_more)

lemma digitsValue_snoc:
  "digitsValue r acc (cs @ [c]) =
     (case digitsValue r acc cs of None \<Rightarrow> None
      | Some a \<Rightarrow> (case digitIn r c of None \<Rightarrow> None | Some d \<Rightarrow> Some (a * r + d)))"
  by (induction cs arbitrary: acc) (simp_all split: option.splits)

lemma digitsValue_showNat: "digitsValue 10 0 (showNat n) = Some n"
proof (induction n rule: showNat.induct)
  case (1 n)
  show ?case
  proof (cases "n < 10")
    case True
    then show ?thesis by (simp add: showNat_digit digitIn_nth)
  next
    case False
    then have "digitsValue 10 0 (showNat (n div 10)) = Some (n div 10)" using 1 by simp
    then show ?thesis using False
      by (simp add: showNat_more digitsValue_snoc digitIn_nth)
  qed
qed

lemma parseDigits_showNat: "parseDigits 10 (showNat n) = Some n"
  by (simp add: parseDigits_def showNat_nonempty digitsValue_showNat)

lemma digits_takeWhile:
  assumes "list_all isDigitChar s" and "\<And>c. isDigitChar c \<Longrightarrow> P c"
  shows "takeWhile P s = s" and "dropWhile P s = []"
  using assms by (induction s) simp_all

lemma digits_dropWhile_not:
  assumes "list_all isDigitChar s" and "\<And>c. isDigitChar c \<Longrightarrow> \<not> P c"
  shows "dropWhile P s = s"
  using assms by (cases s) simp_all

lemma isDigitChar_cases:
  "isDigitChar c \<Longrightarrow> \<not> isStrWhiteSpaceChar c" 
  "isDigitChar c \<Longrightarrow> c \<noteq> CHR ''e'' \<and> c \<noteq> CHR ''E''"
  "isDigitChar c \<Longrightarrow> c \<noteq> CHR ''.''"
  "isDigitChar c \<Longrightarrow> c \<noteq> CHR ''+'' \<and> c \<noteq> CHR ''-'' \<and> c \<noteq> CHR ''I''"
  "isDigitChar c \<Longrightarrow> c \<noteq> CHR ''x'' \<and> c \<noteq> CHR ''X'' \<and> c \<noteq> CHR ''o'' \<and> c \<noteq> CHR ''O''
      \<and> c \<noteq> CHR ''b'' \<and> c \<noteq> CHR ''B''"
  by (auto simp: isDigitChar_def isStrWhiteSpaceChar_def)

lemma trimString_digits:
  assumes "list_all isDigitChar s"
  shows "trimString s = s"
proof -
  have "list_all isDigitChar (rev s)" using assms by (simp add: list_all_iff)
  then have "dropWhile isStrWhiteSpaceChar (rev s) = rev s"
    by (rule digits_dropWhile_not) (simp add: isDigitChar_cases)
  moreover have "dropWhile isStrWhiteSpaceChar s = s"
    using assms by (rule digits_dropWhile_not) (simp add: isDigitChar_cases)
  ultimately show ?thesis by (simp add: trimString_def)
qed

lemma radixOfPrefix_digits:
  assumes "list_all isDigitChar s"
  shows "radixOfPrefix (take 2 s) = None"
proof (cases s)
  case Nil
  then show ?thesis by (simp add: radixOfPrefix_def)
next
  case (Cons a t)
  show ?thesis
  proof (cases t)
    case Nil
    with Cons show ?thesis by (simp add: radixOfPrefix_def)
  next
    case (Cons b u)
    with \<open>s = a # t\<close> assms have "isDigitChar b" by simp
    from isDigitChar_cases(5)[OF this] Cons \<open>s = a # t\<close> show ?thesis
      by (simp add: radixOfPrefix_def)
  qed
qed

lemma StringToNumber_digits:
  assumes d: "list_all isDigitChar s" and ne: "s \<noteq> []" and v: "parseDigits 10 s = Some n"
  shows "StringToNumber s = roundToDouble (real n)"
proof -
  from d ne have h: "isDigitChar (hd s)" by (cases s) simp_all
  have inf: "s \<noteq> ''Infinity''"
  proof
    assume "s = ''Infinity''"
    with h isDigitChar_cases(4)[of "CHR ''I''"] show False by simp
  qed
  have e1: "takeWhile (\<lambda>c. c \<noteq> CHR ''e'' \<and> c \<noteq> CHR ''E'') s = s"
    and e2: "dropWhile (\<lambda>c. c \<noteq> CHR ''e'' \<and> c \<noteq> CHR ''E'') s = []"
    using digits_takeWhile[OF d, of "\<lambda>c. c \<noteq> CHR ''e'' \<and> c \<noteq> CHR ''E''"] isDigitChar_cases(2)
    by simp_all
  have p1: "takeWhile (\<lambda>c. c \<noteq> CHR ''.'') s = s"
    and p2: "dropWhile (\<lambda>c. c \<noteq> CHR ''.'') s = []"
    using digits_takeWhile[OF d, of "\<lambda>c. c \<noteq> CHR ''.''"] isDigitChar_cases(3)
    by simp_all
  have m: "parseMantissa s = Some (real n)"
    by (simp add: parseMantissa_def p1 p2 v)
  have u: "parseUnsignedDecimal s = roundToDouble (real n)"
    by (simp add: parseUnsignedDecimal_def inf e1 e2 m)
  have "parseDecimal s = roundToDouble (real n)"
    using isDigitChar_cases(4)[OF h] by (simp add: parseDecimal_def u)
  then show ?thesis
    using ne by (simp add: StringToNumber_def trimString_digits[OF d] radixOfPrefix_digits[OF d])
qed

text \<open>The decimal digits of \<open>n\<close> are read as the binary64 number nearest to \<open>n\<close>.\<close>

lemma StringToNumber_showNat: "StringToNumber (showNat n) = roundToDouble (real n)"
  by (rule StringToNumber_digits[OF showNat_digits showNat_nonempty parseDigits_showNat])

lemma roundToDouble_nat_exact:
  assumes "n < 2 ^ 53"
  shows "roundToDouble (real n) = Fin (real n)"
proof (rule roundToDouble_exact[where k = 0])
  show "real_of_int \<lfloor>real n * 2 ^ 0\<rfloor> = real n * 2 ^ 0" by simp
  have "real n < real (2 ^ 53)" using assms by (simp only: of_nat_less_iff)
  then show "\<bar>real n\<bar> * 2 ^ 0 < 2 ^ 53" by simp
  show "(0::nat) \<le> 1074" by simp
qed

lemma roundToDouble_ge_one:
  assumes "1 \<le> r"
  shows "roundToDouble r \<noteq> NaN \<and> roundToDouble r \<noteq> Fin 0"
proof -
  define a :: real where "a = \<bar>r\<bar>"
  define e where "e = \<lfloor>log 2 a\<rfloor>"
  define u :: real where "u = 2 powr of_int (e - 52)"
  have a1: "1 \<le> a" using assms by (simp add: a_def)
  then have apos: "0 < a" by simp
  then have nz: "r \<noteq> 0" by (auto simp: a_def)
  have "0 \<le> log 2 a" using a1 by simp
  then have e0: "0 \<le> e" by (simp add: e_def)
  then have emax: "max \<lfloor>log 2 a\<rfloor> (- 1022) = e" by (simp add: e_def)
  have "of_int e \<le> log 2 a" by (simp add: e_def)
  then have ea: "2 powr of_int e \<le> a" using apos by (simp add: le_log_iff)
  have upos: "0 < u" by (simp add: u_def)
  have "2 powr of_int e = 2 ^ 52 * u"
    by (simp add: u_def powr_diff flip: powr_numeral)
  with ea have "2 ^ 52 \<le> a / u" using upos by (simp add: field_simps)
  then have "(2::int) ^ 52 \<le> \<lfloor>a / u\<rfloor>" by (simp add: le_floor_iff)
  also have "\<dots> \<le> roundHalfEven (a / u)" by (rule roundHalfEven_ge_floor)
  finally have "(0::int) < roundHalfEven (a / u)" by simp
  then have "(0::real) < of_int (roundHalfEven (a / u))" by simp
  define w :: real where "w = of_int (roundHalfEven (a / u)) * u"
  have v: "0 < w" using \<open>0 < of_int (roundHalfEven (a / u))\<close> upos by (simp add: w_def)
  have "roundToDouble r =
      (if 2 ^ 1024 \<le> w then signedInf (0 < r) else Fin (if 0 < r then w else - w))"
    using nz emax by (simp only: roundToDouble_def Let_def a_def u_def w_def if_False)
  then show ?thesis using v assms by (auto simp add: signedInf_def)
qed

lemma fifty_numeric: "StringToNumber ''50'' = Fin 50"
  by (simp add: parse_defs)

lemma withNumericString_scales:
  "scales_v1 defaultProps_v1 (map EObj withNumericString) = [Fin 50, Fin 100]"
  "scales_v2 defaultProps_v2 (map EObj withNumericString) = [Fin 50, Fin 100]"
  by (simp_all add: scales_v1_def scaleVal_v1_def scales_v2_def scaleVal_v2_def
      withNumericString_def field_defs fifty_numeric)

text \<open>The \<open>value\<close> and \<open>scale\<close> fields of the output are the extracted scales.\<close>

lemma mapData_v1_values:
  "map item_value (mapData_v1 p (Some ds)) = scales_v1 p ds"
  "map item_scale (mapData_v1 p (Some ds)) = scales_v1 p ds"
  by (cases ds; simp add: mapData_v1_def Let_def scales_v1_def)+

lemma mapData_v2_values:
  "map item_value (mapData_v2 p (Some ds)) = scales_v2 p ds"
  "map item_scale (mapData_v2 p (Some ds)) = scales_v2 p ds"
  by (cases ds; simp add: mapData_v2_def Let_def scales_v2_def)+

text \<open>What \<open>Number(...) || 0\<close> makes of the sample strings.\<close>

lemma numericStrings_scales:
  "scales_v1 defaultProps_v1 (map EObj numericStrings) =
     [Fin 50, Fin 50, Fin 12, Fin 8, Fin 1000, Fin 1200, Fin (1/2), Fin (5/2), Fin (1/2),
      Fin 5, Fin 7, Fin (- (3/2)), Fin 31, Fin 5, Fin 15, PInf, NInf,
      Fin 9007199254740992, PInf, Fin 0]"
  "scales_v2 defaultProps_v2 (map EObj numericStrings) =
     [Fin 50, Fin 50, Fin 12, Fin 8, Fin 1000, Fin 1200, Fin (1/2), Fin (5/2), Fin (1/2),
      Fin 5, Fin 7, Fin (- (3/2)), Fin 31, Fin 5, Fin 15, PInf, NInf,
      Fin 9007199254740992, PInf, Fin 0]"
  by (simp_all add: scales_v1_def scaleVal_v1_def scales_v2_def scaleVal_v2_def
      numericStrings_def field_defs parse_defs roundToDouble_examples roundToDouble_overflow
      roundToDouble_underflow signedInf_def)

lemma nonNumericStrings_scales:
  "scales_v1 defaultProps_v1 (map EObj nonNumericStrings) =
     [Fin 0, Fin 0, Fin 0, Fin 0, Fin 0, Fin 0, Fin 0, Fin 0, Fin 0, Fin 0, Fin 0, Fin 0,
      Fin 0, Fin 0, Fin 0]"
  "scales_v2 defaultProps_v2 (map EObj nonNumericStrings) =
     [Fin 0, Fin 0, Fin 0, Fin 0, Fin 0, Fin 0, Fin 0, Fin 0, Fin 0, Fin 0, Fin 0, Fin 0,
      Fin 0, Fin 0, Fin 0]"
  by (simp_all add: scales_v1_def scaleVal_v1_def scales_v2_def scaleVal_v2_def
      nonNumericStrings_def field_defs parse_defs)

text \<open>
  C10. In both components a scale given as a numeric string is parsed: if \<open>Number\<close> of
  the string is a number \<open>n\<close> other than NaN and zero, the record's \<open>value\<close> and \<open>scale\<close>
  are \<open>n\<close>, \<open>n\<close> is what enters \<open>min\<close> and \<open>max\<close>, and the alpha is computed from \<open>n\<close>.
  A record's \<open>value\<close> is \<open>0\<close> exactly when \<open>Number\<close> of its scale field is NaN or zero.
  A scale given as the decimal digits of a positive integer \<open>m\<close> is the binary64 number
  nearest to \<open>m\<close>, which is \<open>m\<close> itself below \<open>2^53\<close>. At the sample strings the values are:
  \<open>'50'\<close>, \<open>' 50 '\<close>, tab \<open>12\<close> line feed, and \<open>8\<close> after a no-break space give 50, 50, 12
  and 8; \<open>'1e3'\<close>, \<open>'12E+2'\<close>, \<open>'5e-1'\<close> give 1000, 1200, 0.5; \<open>'2.5'\<close>, \<open>'.5'\<close>, \<open>'5.'\<close>, \<open>'+7'\<close>,
  \<open>'-1.5'\<close> give 2.5, 0.5, 5, 7, -1.5; \<open>'0x1F'\<close>, \<open>'0b101'\<close>, \<open>'0o17'\<close> give 31, 5, 15;
  \<open>'Infinity'\<close> and \<open>'-Infinity'\<close> give the infinities; \<open>'9007199254740993'\<close> gives
  9007199254740992; \<open>'1e400'\<close> gives \<open>Infinity\<close> and \<open>'1e-400'\<close> gives 0. The strings that
  are no numeric literal, and those that denote zero, give 0.
\<close>

theorem numeric_string_scale_is_parsed:
  "(i < length ds \<and> optProp (ds ! i) (orString (scaleKey p1) ''scale'') = Str s
      \<and> StringToNumber s = n \<and> n \<noteq> NaN \<and> n \<noteq> Fin 0 \<longrightarrow>
        item_value (mapData_v1 p1 (Some ds) ! i) = n
        \<and> item_scale (mapData_v1 p1 (Some ds) ! i) = n
        \<and> alphas_v1 p1 ds ! i =
            computeAlpha_v1 n (Math_min (scales_v1 p1 ds)) (Math_max (scales_v1 p1 ds))
        \<and> scales_v1 p1 ds ! i = n)
   \<and> (i < length ds \<and> optProp (ds ! i) (orString (scaleKey p2) ''scale'') = Str s
      \<and> StringToNumber s = n \<and> n \<noteq> NaN \<and> n \<noteq> Fin 0 \<longrightarrow>
        item_value (mapData_v2 p2 (Some ds) ! i) = n
        \<and> item_scale (mapData_v2 p2 (Some ds) ! i) = n
        \<and> alphas_v2 p2 ds ! i =
            computeAlpha_v2 n (Math_min (scales_v2 p2 ds)) (Math_max (scales_v2 p2 ds))
        \<and> scales_v2 p2 ds ! i = n)
   \<and> (i < length ds \<longrightarrow>
        (item_value (mapData_v1 p1 (Some ds) ! i) = Fin 0)
          = (ToNumber (optProp (ds ! i) (orString (scaleKey p1) ''scale'')) = NaN
             \<or> ToNumber (optProp (ds ! i) (orString (scaleKey p1) ''scale'')) = Fin 0))
   \<and> (i < length ds \<longrightarrow>
        (item_value (mapData_v2 p2 (Some ds) ! i) = Fin 0)
          = (ToNumber (optProp (ds ! i) (orString (scaleKey p2) ''scale'')) = NaN
             \<or> ToNumber (optProp (ds ! i) (orString (scaleKey p2) ''scale'')) = Fin 0))
   \<and> (i < length ds \<and> optProp (ds ! i) (orString (scaleKey p1) ''scale'') = Str (showNat m)
      \<and> 0 < m \<longrightarrow>
        item_value (mapData_v1 p1 (Some ds) ! i) = roundToDouble (real m)
        \<and> item_scale (mapData_v1 p1 (Some ds) ! i) = roundToDouble (real m)
        \<and> (m < 2 ^ 53 \<longrightarrow>
             item_value (mapData_v1 p1 (Some ds) ! i) = Fin (real m)
             \<and> item_scale (mapData_v1 p1 (Some ds) ! i) = Fin (real m)))
   \<and> (i < length ds \<and> optProp (ds ! i) (orString (scaleKey p2) ''scale'') = Str (showNat m)
      \<and> 0 < m \<longrightarrow>
        item_value (mapData_v2 p2 (Some ds) ! i) = roundToDouble (real m)
        \<and> item_scale (mapData_v2 p2 (Some ds) ! i) = roundToDouble (real m)
        \<and> (m < 2 ^ 53 \<longrightarrow>
             item_value (mapData_v2 p2 (Some ds) ! i) = Fin (real m)
             \<and> item_scale (mapData_v2 p2 (Some ds) ! i) = Fin (real m)))
   \<and> map item_value (mapData_v1 defaultProps_v1 (Some (map EObj numericStrings))) =
       [Fin 50, Fin 50, Fin 12, Fin 8, Fin 1000, Fin 1200, Fin (1/2), Fin (5/2), Fin (1/2),
        Fin 5, Fin 7, Fin (- (3/2)), Fin 31, Fin 5, Fin 15, PInf, NInf,
        Fin 9007199254740992, PInf, Fin 0]
   \<and> map item_scale (mapData_v1 defaultProps_v1 (Some (map EObj numericStrings))) =
       [Fin 50, Fin 50, Fin 12, Fin 8, Fin 1000, Fin 1200, Fin (1/2), Fin (5/2), Fin (1/2),
        Fin 5, Fin 7, Fin (- (3/2)), Fin 31, Fin 5, Fin 15, PInf, NInf,
        Fin 9007199254740992, PInf, Fin 0]
   \<and> map item_value (mapData_v2 defaultProps_v2 (Some (map EObj numericStrings))) =
       [Fin 50, Fin 50, Fin 12, Fin 8, Fin 1000, Fin 1200, Fin (1/2), Fin (5/2), Fin (1/2),
        Fin 5, Fin 7, Fin (- (3/2)), Fin 31, Fin 5, Fin 15, PInf, NInf,
        Fin 9007199254740992, PInf, Fin 0]
   \<and> map item_scale (mapData_v2 defaultProps_v2 (Some (map EObj numericStrings))) =
       [Fin 50, Fin 50, Fin 12, Fin 8, Fin 1000, Fin 1200, Fin (1/2), Fin (5/2), Fin (1/2),
        Fin 5, Fin 7, Fin (- (3/2)), Fin 31, Fin 5, Fin 15, PInf, NInf,
        Fin 9007199254740992, PInf, Fin 0]
   \<and> map item_value (mapData_v1 defaultProps_v1 (Some (map EObj nonNumericStrings))) =
       [Fin 0, Fin 0, Fin 0, Fin 0, Fin 0, Fin 0, Fin 0, Fin 0, Fin 0, Fin 0, Fin 0, Fin 0,
        Fin 0, Fin 0, Fin 0]
   \<and> map item_value (mapData_v2 defaultProps_v2 (Some (map EObj nonNumericStrings))) =
       [Fin 0, Fin 0, Fin 0, Fin 0, Fin 0, Fin 0, Fin 0, Fin 0, Fin 0, Fin 0, Fin 0, Fin 0,
        Fin 0, Fin 0, Fin 0]"
proof (intro conjI impI)
  assume a: "i < length ds \<and> optProp (ds ! i) (orString (scaleKey p1) ''scale'') = Str s
      \<and> StringToNumber s = n \<and> n \<noteq> NaN \<and> n \<noteq> Fin 0"
  then have v: "scaleVal_v1 p1 (ds ! i) = n"
    by (auto simp add: scaleVal_v1_def orZero_def)
  from a v show "item_value (mapData_v1 p1 (Some ds) ! i) = n" by (simp add: mapData_v1_nth)
  from a v show "item_scale (mapData_v1 p1 (Some ds) ! i) = n" by (simp add: mapData_v1_nth)
  from a v show "alphas_v1 p1 ds ! i =
            computeAlpha_v1 n (Math_min (scales_v1 p1 ds)) (Math_max (scales_v1 p1 ds))"
    by (simp add: alphas_v1_def)
  from a v show "scales_v1 p1 ds ! i = n" by (simp add: scales_v1_def)
next
  assume a: "i < length ds \<and> optProp (ds ! i) (orString (scaleKey p2) ''scale'') = Str s
      \<and> StringToNumber s = n \<and> n \<noteq> NaN \<and> n \<noteq> Fin 0"
  then have v: "scaleVal_v2 p2 (ds ! i) = n"
    by (auto simp add: scaleVal_v2_def orZero_def)
  from a v show "item_value (mapData_v2 p2 (Some ds) ! i) = n" by (simp add: mapData_v2_nth)
  from a v show "item_scale (mapData_v2 p2 (Some ds) ! i) = n" by (simp add: mapData_v2_nth)
  from a v show "alphas_v2 p2 ds ! i =
            computeAlpha_v2 n (Math_min (scales_v2 p2 ds)) (Math_max (scales_v2 p2 ds))"
    by (simp add: alphas_v2_def)
  from a v show "scales_v2 p2 ds ! i = n" by (simp add: scales_v2_def)
next
  assume "i < length ds"
  then show "(item_value (mapData_v1 p1 (Some ds) ! i) = Fin 0)
          = (ToNumber (optProp (ds ! i) (orString (scaleKey p1) ''scale'')) = NaN
             \<or> ToNumber (optProp (ds ! i) (orString (scaleKey p1) ''scale'')) = Fin 0)"
    by (auto simp add: mapData_v1_nth scaleVal_v1_def orZero_def)
next
  assume "i < length ds"
  then show "(item_value (mapData_v2 p2 (Some ds) ! i) = Fin 0)
          = (ToNumber (optProp (ds ! i) (orString (scaleKey p2) ''scale'')) = NaN
             \<or> ToNumber (optProp (ds ! i) (orString (scaleKey p2) ''scale'')) = Fin 0)"
    by (auto simp add: mapData_v2_nth scaleVal_v2_def orZero_def)
next
  assume a: "i < length ds \<and> optProp (ds ! i) (orString (scaleKey p1) ''scale'') = Str (showNat m)
      \<and> 0 < m"
  then have "1 \<le> real m" by simp
  from roundToDouble_ge_one[OF this] a
  have v: "scaleVal_v1 p1 (ds ! i) = roundToDouble (real m)"
    by (simp add: scaleVal_v1_def orZero_def StringToNumber_showNat)
  from a v show r1: "item_value (mapData_v1 p1 (Some ds) ! i) = roundToDouble (real m)"
    by (simp add: mapData_v1_nth)
  from a v show r2: "item_scale (mapData_v1 p1 (Some ds) ! i) = roundToDouble (real m)"
    by (simp add: mapData_v1_nth)
  assume "m < 2 ^ 53"
  then have x: "roundToDouble (real m) = Fin (real m)" by (rule roundToDouble_nat_exact)
  from r1 x show "item_value (mapData_v1 p1 (Some ds) ! i) = Fin (real m)" by simp
  from r2 x show "item_scale (mapData_v1 p1 (Some ds) ! i) = Fin (real m)" by simp
next
  assume a: "i < length ds \<and> optProp (ds ! i) (orString (scaleKey p2) ''scale'') = Str (showNat m)
      \<and> 0 < m"
  then have "1 \<le> real m" by simp
  from roundToDouble_ge_one[OF this] a
  have v: "scaleVal_v2 p2 (ds ! i) = roundToDouble (real m)"
    by (simp add: scaleVal_v2_def orZero_def StringToNumber_showNat)
  from a v show r1: "item_value (mapData_v2 p2 (Some ds) ! i) = roundToDouble (real m)"
    by (simp add: mapData_v2_nth)
  from a v show r2: "item_scale (mapData_v2 p2 (Some ds) ! i) = roundToDouble (real m)"
    by (simp add: mapData_v2_nth)
  assume "m < 2 ^ 53"
  then have x: "roundToDouble (real m) = Fin (real m)" by (rule roundToDouble_nat_exact)
  from r1 x show "item_value (mapData_v2 p2 (Some ds) ! i) = Fin (real m)" by simp
  from r2 x show "item_scale (mapData_v2 p2 (Some ds) ! i) = Fin (real m)" by simp
next
  show "map item_value (mapData_v1 defaultProps_v1 (Some (map EObj numericStrings))) =
       [Fin 50, Fin 50, Fin 12, Fin 8, Fin 1000, Fin 1200, Fin (1/2), Fin (5/2), Fin (1/2),
        Fin 5, Fin 7, Fin (- (3/2)), Fin 31, Fin 5, Fin 15, PInf, NInf,
        Fin 9007199254740992, PInf, Fin 0]"
    by (simp only: mapData_v1_values numericStrings_scales)
  show "map item_scale (mapData_v1 defaultProps_v1 (Some (map EObj numericStrings))) =
       [Fin 50, Fin 50, Fin 12, Fin 8, Fin 1000, Fin 1200, Fin (1/2), Fin (5/2), Fin (1/2),
        Fin 5, Fin 7, Fin (- (3/2)), Fin 31, Fin 5, Fin 15, PInf, NInf,
        Fin 9007199254740992, PInf, Fin 0]"
    by (simp only: mapData_v1_values numericStrings_scales)
  show "map item_value (mapData_v2 defaultProps_v2 (Some (map EObj numericStrings))) =
       [Fin 50, Fin 50, Fin 12, Fin 8, Fin 1000, Fin 1200, Fin (1/2), Fin (5/2), Fin (1/2),
        Fin 5, Fin 7, Fin (- (3/2)), Fin 31, Fin 5, Fin 15, PInf, NInf,
        Fin 9007199254740992, PInf, Fin 0]"
    by (simp only: mapData_v2_values numericStrings_scales)
  show "map item_scale (mapData_v2 defaultProps_v2 (Some (map EObj numericStrings))) =
       [Fin 50, Fin 50, Fin 12, Fin 8, Fin 1000, Fin 1200, Fin (1/2), Fin (5/2), Fin (1/2),
        Fin 5, Fin 7, Fin (- (3/2)), Fin 31, Fin 5, Fin 15, PInf, NInf,
        Fin 9007199254740992, PInf, Fin 0]"
    by (simp only: mapData_v2_values numericStrings_scales)
  show "map item_value (mapData_v1 defaultProps_v1 (Some (map EObj nonNumericStrings))) =
       [Fin 0, Fin 0, Fin 0, Fin 0, Fin 0, Fin 0, Fin 0, Fin 0, Fin 0, Fin 0, Fin 0, Fin 0,
        Fin 0, Fin 0, Fin 0]"
    by (simp only: mapData_v1_values nonNumericStrings_scales)
  show "map item_value (mapData_v2 defaultProps_v2 (Some (map EObj nonNumericStrings))) =
       [Fin 0, Fin 0, Fin 0, Fin 0, Fin 0, Fin 0, Fin 0, Fin 0, Fin 0, Fin 0, Fin 0, Fin 0,
        Fin 0, Fin 0, Fin 0]"
    by (simp only: mapData_v2_values nonNumericStrings_scales)
qed

text \<open>The theorem at a record with the scale \<open>'50'\<close> beside one with the scale \<open>100\<close>.\<close>

theorem numeric_string_scale_is_parsed_witness:
  "optProp (map EObj withNumericString ! 0) ''scale'' = Str ''50''
   \<and> StringToNumber ''50'' = Fin 50
   \<and> showNat 50 = ''50''
   \<and> item_value (mapData_v1 defaultProps_v1 (Some (map EObj withNumericString)) ! 0) = Fin 50
   \<and> item_scale (mapData_v1 defaultProps_v1 (Some (map EObj withNumericString)) ! 0) = Fin 50
   \<and> alphas_v1 defaultProps_v1 (map EObj withNumericString) ! 0 = Fin (1/2)
   \<and> item_value (mapData_v2 defaultProps_v2 (Some (map EObj withNumericString)) ! 0) = Fin 50
   \<and> item_scale (mapData_v2 defaultProps_v2 (Some (map EObj withNumericString)) ! 0) = Fin 50
   \<and> alphas_v2 defaultProps_v2 (map EObj withNumericString) ! 0 = Fin (1/2)"
proof -
  have o: "optProp (map EObj withNumericString ! 0) ''scale'' = Str ''50''"
    by (simp add: withNumericString_def optProp_def getProp_def)
  have l: "length withNumericString = 2" by (simp add: withNumericString_def)
  have k: "orString (scaleKey defaultProps_v1) ''scale'' = ''scale''"
    "orString (scaleKey defaultProps_v2) ''scale'' = ''scale''"
    by (simp_all add: field_defs)
  have c: "computeAlpha_v1 (Fin 50) (Fin 50) (Fin 100) = Fin (1/2)"
    by (simp add: computeAlpha_v1_def alpha_defs MIN_ALPHA_v1_def MAX_ALPHA_v1_def)
  have sn: "showNat 50 = ''50''"
    by (simp add: showNat_digit showNat_more)
  from numeric_string_scale_is_parsed [where ds = "map EObj withNumericString" and i = 0
      and ?p1.0 = defaultProps_v1 and ?p2.0 = defaultProps_v2 and s = "''50''" and n = "Fin 50"
      and m = 50]
    o fifty_numeric sn
  show ?thesis
    by (simp add: l k c withNumericString_scales computeAlpha_v2_v1)
qed

end
